theory Spec2Isabelle
  imports Complex_Main "HOL-Library.Log_Nat"
begin

section \<open>The Python values the humidifier module computes with\<close>

text \<open>
  The module \<^verbatim>\<open>pywemo/ouimeaux_device/humidifier.py\<close> decodes an XML attribute list
  reported by a WeMo humidifier into a dictionary and keeps the last dictionary in a device
  object. Everything the module raises is a value of \<open>error\<close>; a function that may raise
  returns \<open>error + 'a\<close> with \<open>Inl\<close> for the exception.

  Strings are lists of 8-bit characters: ASCII plus the Latin-1 block, one \<open>char\<close> per code
  point. The module imports only under Python 3 (its functional \<^verbatim>\<open>IntEnum(...)\<close> call
  fails on the Python 2 stand-in class), so the builtins below are the ones of Python 3.
\<close>

datatype error = ParseError | IndexError | TypeError | ValueError | ZeroDivisionError | RPCError

text \<open>
  A Python \<^verbatim>\<open>float\<close> is an IEEE binary64 number. A finite one is represented by the rational
  number it denotes, so the two zeros are one value (Python's \<^verbatim>\<open>==\<close> does not tell them apart
  either).
\<close>

datatype pyfloat = Finite rat | PInf | NInf | NaN

datatype pyval = PyInt int | PyFloat pyfloat | PyBool bool

type_synonym pydict = "string \<rightharpoonup> pyval"

subsection \<open>Rounding a rational to binary64\<close>

definition pow2 :: "int \<Rightarrow> rat" where
  "pow2 e = (if 0 \<le> e then of_int (2 ^ nat e) else 1 / of_int (2 ^ nat (- e)))"

definition round_half_even :: "rat \<Rightarrow> int" where
  "round_half_even x =
     (let f = \<lfloor>x\<rfloor>; d = x - of_int f
      in if d < 1 / 2 then f else if 1 / 2 < d then f + 1 else if even f then f else f + 1)"

definition floor_log2 :: "rat \<Rightarrow> int" where
  \<comment> \<open>for \<open>0 < x\<close>: the \<open>e\<close> with \<open>2 ^ e \<le> x < 2 ^ (e + 1)\<close>, from the bit lengths of
      numerator and denominator\<close>
  "floor_log2 x =
     (let e = bitlen (fst (quotient_of x)) - bitlen (snd (quotient_of x))
      in if pow2 e \<le> x then e else e - 1)"

definition to_double :: "rat \<Rightarrow> pyfloat" where
  \<comment> \<open>round to nearest, ties to even; 53 significant bits, least exponent -1074; a rounded
      value of \<open>2 ^ 1024\<close> or more overflows to an infinity\<close>
  "to_double x =
     (if x = 0 then Finite 0
      else let a = \<bar>x\<bar>;
               q = pow2 (max (floor_log2 a - 52) (- 1074));
               v = of_int (round_half_even (a / q)) * q
           in if 1024 \<le> floor_log2 v then (if 0 < x then PInf else NInf)
              else Finite (if 0 < x then v else - v))"

definition float_of_int :: "int \<Rightarrow> pyfloat" where
  \<comment> \<open>\<^verbatim>\<open>float(n)\<close> for an int small enough not to overflow\<close>
  "float_of_int n = to_double (of_int n)"

definition float_truediv :: "pyfloat \<Rightarrow> pyfloat \<Rightarrow> error + pyfloat" where
  "float_truediv x y =
     (case y of
        Finite b \<Rightarrow>
          if b = 0 then Inl ZeroDivisionError
          else (case x of
                  Finite a \<Rightarrow> Inr (to_double (a / b))
                | PInf \<Rightarrow> Inr (if 0 < b then PInf else NInf)
                | NInf \<Rightarrow> Inr (if 0 < b then NInf else PInf)
                | NaN \<Rightarrow> Inr NaN)
      | NaN \<Rightarrow> Inr NaN
      | _ \<Rightarrow> (case x of Finite a \<Rightarrow> Inr (Finite 0) | _ \<Rightarrow> Inr NaN))"

definition float_mul :: "pyfloat \<Rightarrow> pyfloat \<Rightarrow> pyfloat" where
  "float_mul x y =
     (case (x, y) of
        (Finite a, Finite b) \<Rightarrow> to_double (a * b)
      | (NaN, _) \<Rightarrow> NaN
      | (_, NaN) \<Rightarrow> NaN
      | (Finite a, PInf) \<Rightarrow> (if a = 0 then NaN else if 0 < a then PInf else NInf)
      | (Finite a, NInf) \<Rightarrow> (if a = 0 then NaN else if 0 < a then NInf else PInf)
      | (PInf, Finite b) \<Rightarrow> (if b = 0 then NaN else if 0 < b then PInf else NInf)
      | (NInf, Finite b) \<Rightarrow> (if b = 0 then NaN else if 0 < b then NInf else PInf)
      | (PInf, PInf) \<Rightarrow> PInf
      | (NInf, NInf) \<Rightarrow> PInf
      | (PInf, NInf) \<Rightarrow> NInf
      | (NInf, PInf) \<Rightarrow> NInf)"

definition float_round :: "pyfloat \<Rightarrow> nat \<Rightarrow> pyfloat" where
  \<comment> \<open>\<^verbatim>\<open>round(x, ndigits)\<close>: the nearest decimal with that many places (ties to even, decided on
      the exact value of \<open>x\<close>), converted back to binary64; infinities and nan round to themselves\<close>
  "float_round x ndigits =
     (case x of
        Finite r \<Rightarrow> to_double (of_int (round_half_even (r * 10 ^ ndigits)) / 10 ^ ndigits)
      | _ \<Rightarrow> x)"

subsection \<open>Strings: \<^verbatim>\<open>str.replace\<close>, \<^verbatim>\<open>int(s)\<close>, \<^verbatim>\<open>float(s)\<close>, \<^verbatim>\<open>str(n)\<close>\<close>

fun str_replace :: "string \<Rightarrow> string \<Rightarrow> string \<Rightarrow> string" where
  "str_replace old new [] = (if old = [] then new else [])"
| "str_replace old new (c # s) =
     (if old = [] then new @ c # str_replace old new s
      else if take (length old) (c # s) = old
           then new @ str_replace old new (drop (length old) (c # s))
      else c # str_replace old new s)"

definition is_space :: "char \<Rightarrow> bool" where
  "is_space c \<longleftrightarrow>
     c \<in> set [CHR 0x09, CHR 0x0A, CHR 0x0B, CHR 0x0C, CHR 0x0D, CHR 0x20, CHR 0x85, CHR 0xA0]"

definition is_digit :: "char \<Rightarrow> bool" where
  "is_digit c \<longleftrightarrow> c \<in> set ''0123456789''"

definition strip :: "string \<Rightarrow> string" where
  "strip s = rev (dropWhile is_space (rev (dropWhile is_space s)))"

definition digit_val :: "char \<Rightarrow> int" where
  "digit_val c = (case map_of (zip ''0123456789'' [0, 1, 2, 3, 4, 5, 6, 7, 8, 9]) c of
                    Some d \<Rightarrow> d | None \<Rightarrow> 0)"

definition int_of_digits :: "string \<Rightarrow> int" where
  "int_of_digits ds = foldl (\<lambda>n c. 10 * n + digit_val c) 0 ds"

definition lower :: "char \<Rightarrow> char" where
  "lower c = (case map_of (zip ''ABCDEFGHIJKLMNOPQRSTUVWXYZ'' ''abcdefghijklmnopqrstuvwxyz'') c of
                Some l \<Rightarrow> l | None \<Rightarrow> c)"

fun strip_underscores :: "char \<Rightarrow> string \<Rightarrow> string option" where
  \<comment> \<open>an underscore is accepted only between two digits, and is dropped; \<open>prev\<close> is the
      character before\<close>
  "strip_underscores prev [] = (if prev = CHR ''_'' then None else Some [])"
| "strip_underscores prev (c # cs) =
     (if c = CHR ''_'' then (if is_digit prev then strip_underscores c cs else None)
      else if prev = CHR ''_'' \<and> \<not> is_digit c then None
      else map_option ((#) c) (strip_underscores c cs))"

definition split_sign :: "string \<Rightarrow> bool \<times> string" where
  "split_sign s = (case s of
                     [] \<Rightarrow> (False, [])
                   | c # r \<Rightarrow> if c = CHR ''-'' then (True, r)
                             else if c = CHR ''+'' then (False, r) else (False, s))"

definition int_of_str :: "string \<Rightarrow> int option" where
  \<comment> \<open>\<^verbatim>\<open>int(s)\<close> on a \<^verbatim>\<open>str\<close>; \<open>None\<close> is ValueError\<close>
  "int_of_str s =
     (case strip_underscores (CHR 0x00) (snd (split_sign (strip s))) of
        None \<Rightarrow> None
      | Some ds \<Rightarrow>
          if ds \<noteq> [] \<and> list_all is_digit ds
          then Some (if fst (split_sign (strip s)) then - (int_of_digits ds)
                     else (int_of_digits ds))
          else None)"

definition exponent_of_str :: "string \<Rightarrow> int option" where
  \<comment> \<open>the exponent part of a float literal, empty or \<^verbatim>\<open>e[+-]digits\<close>\<close>
  "exponent_of_str s =
     (case s of
        [] \<Rightarrow> Some 0
      | c # r \<Rightarrow>
          if c = CHR ''e'' \<or> c = CHR ''E''
          then (if snd (split_sign r) \<noteq> [] \<and> list_all is_digit (snd (split_sign r))
                then Some (if fst (split_sign r) then - (int_of_digits (snd (split_sign r)))
                           else (int_of_digits (snd (split_sign r))))
                else None)
          else None)"

definition pow10 :: "int \<Rightarrow> rat" where
  "pow10 e = (if 0 \<le> e then of_int (10 ^ nat e) else 1 / of_int (10 ^ nat (- e)))"

definition decimal_of_str :: "string \<Rightarrow> rat option" where
  \<comment> \<open>an unsigned decimal literal: digits, an optional point and digits (one digit at least),
      an optional exponent\<close>
  "decimal_of_str s =
     (let ip = takeWhile is_digit s;
          r1 = dropWhile is_digit s;
          fp = (case r1 of c # r \<Rightarrow> if c = CHR ''.'' then takeWhile is_digit r else [] | [] \<Rightarrow> []);
          r2 = (case r1 of c # r \<Rightarrow> if c = CHR ''.'' then dropWhile is_digit r else r1 | [] \<Rightarrow> [])
      in if ip = [] \<and> fp = [] then None
         else (case exponent_of_str r2 of
                 None \<Rightarrow> None
               | Some e \<Rightarrow> Some (of_int (int_of_digits (ip @ fp)) * pow10 (e - int (length fp)))))"

definition float_of_str :: "string \<Rightarrow> pyfloat option" where
  \<comment> \<open>\<^verbatim>\<open>float(s)\<close> on a \<^verbatim>\<open>str\<close>; \<open>None\<close> is ValueError\<close>
  "float_of_str s =
     (case strip_underscores (CHR 0x00) (strip s) of
        None \<Rightarrow> None
      | Some t \<Rightarrow>
          (let neg = fst (split_sign t); body = snd (split_sign t)
           in if map lower body = ''inf'' \<or> map lower body = ''infinity''
              then Some (if neg then NInf else PInf)
              else if map lower body = ''nan'' then Some NaN
              else (case decimal_of_str body of
                      None \<Rightarrow> None
                    | Some r \<Rightarrow> Some (to_double (if neg then - r else r)))))"

text \<open>
  \<open>int_of_str\<close> accepts white space around an optional sign and decimal digits, with single
  underscores between digits; the limit that Python 3.11 puts on the number of digits (4300
  unless configured) is not modelled. \<open>float_of_str\<close> accepts the same around a decimal
  literal with an optional exponent, \<^verbatim>\<open>inf\<close>, \<^verbatim>\<open>infinity\<close> or \<^verbatim>\<open>nan\<close> in any case, and rounds
  the literal to the nearest binary64 number.

  The text of an XML element is \<^verbatim>\<open>None\<close> when the element is empty. \<^verbatim>\<open>int(None)\<close> and
  \<^verbatim>\<open>float(None)\<close> raise TypeError, and text that is no number raises ValueError.
\<close>

definition py_int :: "string option \<Rightarrow> error + int" where
  "py_int t = (case t of
                 None \<Rightarrow> Inl TypeError
               | Some s \<Rightarrow> (case int_of_str s of None \<Rightarrow> Inl ValueError | Some n \<Rightarrow> Inr n))"

definition py_float :: "string option \<Rightarrow> error + pyfloat" where
  "py_float t = (case t of
                   None \<Rightarrow> Inl TypeError
                 | Some s \<Rightarrow> (case float_of_str s of None \<Rightarrow> Inl ValueError | Some x \<Rightarrow> Inr x))"

fun digits_of_nat :: "nat \<Rightarrow> string" where
  "digits_of_nat n =
     (if n < 10 then [''0123456789'' ! n] else digits_of_nat (n div 10) @ [''0123456789'' ! (n mod 10)])"

declare digits_of_nat.simps [simp del]

definition py_str :: "int \<Rightarrow> string" where
  \<comment> \<open>\<^verbatim>\<open>str(n)\<close> for an int\<close>
  "py_str n = (if n < 0 then CHR ''-'' # digits_of_nat (nat (- n)) else digits_of_nat (nat n))"

section \<open>The enumerations and their display names\<close>

text \<open>
  \<^verbatim>\<open>FanMode\<close>, \<^verbatim>\<open>DESIRED_HUMIDITY\<close> and \<^verbatim>\<open>WaterLevel\<close> are \<^verbatim>\<open>IntEnum\<close> classes: a member
  hashes and compares as its integer, so the name tables are dictionaries keyed by integers.
\<close>

datatype FanMode = Off | Minimum | Low | Medium | High | Maximum

fun FanMode_value :: "FanMode \<Rightarrow> int" where
  "FanMode_value Off = 0"
| "FanMode_value Minimum = 1"
| "FanMode_value Low = 2"
| "FanMode_value Medium = 3"
| "FanMode_value High = 4"
| "FanMode_value Maximum = 5"

definition FAN_MODE_NAMES :: "int \<rightharpoonup> string" where
  "FAN_MODE_NAMES =
     [FanMode_value Off \<mapsto> ''Off'', FanMode_value Minimum \<mapsto> ''Minimum'',
      FanMode_value Low \<mapsto> ''Low'', FanMode_value Medium \<mapsto> ''Medium'',
      FanMode_value High \<mapsto> ''High'', FanMode_value Maximum \<mapsto> ''Maximum'']"

definition DESIRED_HUMIDITY :: "string \<rightharpoonup> int" where
  "DESIRED_HUMIDITY = [''45'' \<mapsto> 0, ''50'' \<mapsto> 1, ''55'' \<mapsto> 2, ''60'' \<mapsto> 3, ''100'' \<mapsto> 4]"

definition DESIRED_HUMIDITY_NAMES :: "int \<rightharpoonup> string" where
  "DESIRED_HUMIDITY_NAMES =
     [the (DESIRED_HUMIDITY ''45'') \<mapsto> ''45'', the (DESIRED_HUMIDITY ''50'') \<mapsto> ''50'',
      the (DESIRED_HUMIDITY ''55'') \<mapsto> ''55'', the (DESIRED_HUMIDITY ''60'') \<mapsto> ''60'',
      the (DESIRED_HUMIDITY ''100'') \<mapsto> ''100'']"

datatype WaterLevel = Empty | Low_water | Good

fun WaterLevel_value :: "WaterLevel \<Rightarrow> int" where
  "WaterLevel_value Empty = 0"
| "WaterLevel_value Low_water = 1"
| "WaterLevel_value Good = 2"

definition WATER_LEVEL_NAMES :: "int \<rightharpoonup> string" where
  "WATER_LEVEL_NAMES =
     [WaterLevel_value Empty \<mapsto> ''Empty'', WaterLevel_value Low_water \<mapsto> ''Low'',
      WaterLevel_value Good \<mapsto> ''Good'']"

section \<open>The attribute decoder\<close>

text \<open>
  \<^verbatim>\<open>et.fromstring\<close> is the XML parser of the standard library; the decoder takes it as the
  parameter \<open>fromstring\<close>, which returns the root element or the parse error. Of an element
  the decoder reads the children, by index, and their text (\<open>text_of\<close> is the
  attribute \<^verbatim>\<open>.text\<close>).
\<close>

datatype element = Element (tag: string) (text_of: "string option") (children: "element list")

definition getitem :: "element \<Rightarrow> nat \<Rightarrow> error + element" where
  \<comment> \<open>\<^verbatim>\<open>attribute[i]\<close>: IndexError when the element has no such child\<close>
  "getitem e i = (if i < length (children e) then Inr (children e ! i) else Inl IndexError)"

definition except_ValueError :: "error + 'a \<Rightarrow> ('a \<Rightarrow> pydict) \<Rightarrow> pydict \<Rightarrow> error + pydict" where
  \<comment> \<open>\<^verbatim>\<open>try: result[k] = conv  except ValueError: pass\<close>; any other exception goes on\<close>
  "except_ValueError conv assign result =
     (case conv of
        Inr v \<Rightarrow> Inr (assign v)
      | Inl e \<Rightarrow> if e = ValueError then Inr result else Inl e)"

definition filter_life_of :: "string option \<Rightarrow> error + pyfloat" where
  \<comment> \<open>\<^verbatim>\<open>float(round((float(t) / float(60480)) * float(100), 2))\<close>\<close>
  "filter_life_of t =
     (case py_float t of
        Inl e \<Rightarrow> Inl e
      | Inr raw \<Rightarrow>
          (case float_truediv raw (float_of_int 60480) of
             Inl e \<Rightarrow> Inl e
           | Inr x \<Rightarrow> Inr (float_round (float_mul x (float_of_int 100)) 2)))"

text \<open>
  One pass of the loop body over \<open>attribute\<close>. \<^verbatim>\<open>attribute[0]\<close> is read by the first test of
  the \<^verbatim>\<open>if\<close>/\<^verbatim>\<open>elif\<close> chain; \<^verbatim>\<open>attribute[1]\<close> is read only in a branch whose name test has
  passed (\<^verbatim>\<open>and\<close> evaluates its right operand only then). The tests compare the name with
  seven different strings, so a \<^verbatim>\<open>NoWater\<close> or \<^verbatim>\<open>WaterAdvise\<close> attribute whose value is not
  \<^verbatim>\<open>"1"\<close> falls through every later test and changes nothing.
\<close>

definition attribute_xml_to_dict_body :: "element \<Rightarrow> pydict \<Rightarrow> error + pydict" where
  "attribute_xml_to_dict_body attribute result =
     (case getitem attribute 0 of
        Inl e \<Rightarrow> Inl e
      | Inr name \<Rightarrow>
          if text_of name = Some ''FanMode'' then
            (case getitem attribute 1 of
               Inl e \<Rightarrow> Inl e
             | Inr val \<Rightarrow>
                 except_ValueError (py_int (text_of val))
                   (\<lambda>n. result(''fan_mode'' \<mapsto> PyInt n)) result)
          else if text_of name = Some ''DesiredHumidity'' then
            (case getitem attribute 1 of
               Inl e \<Rightarrow> Inl e
             | Inr val \<Rightarrow>
                 except_ValueError (py_int (text_of val))
                   (\<lambda>n. result(''desired_humidity'' \<mapsto> PyInt n)) result)
          else if text_of name = Some ''CurrentHumidity'' then
            (case getitem attribute 1 of
               Inl e \<Rightarrow> Inl e
             | Inr val \<Rightarrow>
                 except_ValueError (py_float (text_of val))
                   (\<lambda>x. result(''current_humidity'' \<mapsto> PyFloat x)) result)
          else if text_of name = Some ''NoWater'' then
            (case getitem attribute 1 of
               Inl e \<Rightarrow> Inl e
             | Inr val \<Rightarrow>
                 if text_of val = Some ''1''
                 then Inr (result(''water_level'' \<mapsto> PyInt 0))
                 else Inr result)
          else if text_of name = Some ''WaterAdvise'' then
            (case getitem attribute 1 of
               Inl e \<Rightarrow> Inl e
             | Inr val \<Rightarrow>
                 if text_of val = Some ''1''
                 then Inr (result(''water_level'' \<mapsto> PyInt 1))
                 else Inr result)
          else if text_of name = Some ''FilterLife'' then
            (case getitem attribute 1 of
               Inl e \<Rightarrow> Inl e
             | Inr val \<Rightarrow>
                 except_ValueError (filter_life_of (text_of val))
                   (\<lambda>x. result(''filter_life'' \<mapsto> PyFloat x)) result)
          else if text_of name = Some ''ExpiredFilterTime'' then
            (case getitem attribute 1 of
               Inl e \<Rightarrow> Inl e
             | Inr val \<Rightarrow>
                 except_ValueError (py_int (text_of val))
                   (\<lambda>n. result(''filter_expired'' \<mapsto> PyBool (n \<noteq> 0))) result)
          else Inr result)"

text \<open>The \<^verbatim>\<open>for\<close> loop over the children of the root, in document order.\<close>

fun attribute_xml_to_dict_loop :: "element list \<Rightarrow> pydict \<Rightarrow> error + pydict" where
  "attribute_xml_to_dict_loop [] result = Inr result"
| "attribute_xml_to_dict_loop (attribute # attributes) result =
     (case attribute_xml_to_dict_body attribute result of
        Inl e \<Rightarrow> Inl e
      | Inr result' \<Rightarrow> attribute_xml_to_dict_loop attributes result')"

definition wrap_blob :: "string \<Rightarrow> string" where
  \<comment> \<open>the string handed to the parser\<close>
  "wrap_blob xml_blob =
     str_replace ''&lt;'' ''<'' (str_replace ''&gt;'' ''>'' (''<attributes>'' @ xml_blob @ ''</attributes>''))"

definition attribute_xml_to_dict ::
    "(string \<Rightarrow> error + element) \<Rightarrow> string option \<Rightarrow> error + pydict" where
  \<comment> \<open>the argument is \<open>None\<close> when the caller passes Python's \<^verbatim>\<open>None\<close>: the first
      concatenation then raises TypeError\<close>
  "attribute_xml_to_dict fromstring xml_blob =
     (case xml_blob of
        None \<Rightarrow> Inl TypeError
      | Some blob \<Rightarrow>
          (case fromstring (wrap_blob blob) of
             Inl e \<Rightarrow> Inl e
           | Inr attributes \<Rightarrow>
               attribute_xml_to_dict_loop (children attributes) [''water_level'' \<mapsto> PyInt 2]))"

section \<open>The device object\<close>

text \<open>
  A \<^verbatim>\<open>Humidifier\<close> object holds the dictionary \<^verbatim>\<open>_attributes\<close> and the value \<^verbatim>\<open>_state\<close>
  (\<open>None\<close> is Python's \<^verbatim>\<open>None\<close>). The remote device behind \<^verbatim>\<open>self.deviceevent\<close> is a
  value of an arbitrary type \<open>'d\<close> that each call may change, and \<open>calls\<close> lists the remote
  calls the object has issued, oldest first; it is not a field of the Python object and is
  kept to count calls.

  The code this module calls and does not define is a record of functions: the XML parser,
  \<^verbatim>\<open>quote_xml\<close>, the two remote calls (each answers or raises, and leaves the device in a
  new state) and \<^verbatim>\<open>Switch.subscription_update\<close> of the base class.
\<close>

datatype rpc = GetAttributes_call | SetAttributes_call string

record 'd humidifier =
  attributes :: pydict
  state :: "pyval option"
  device :: 'd
  calls :: "rpc list"

record 'd collaborators =
  fromstring :: "string \<Rightarrow> error + element"
  quote_xml :: "string \<Rightarrow> string"
  GetAttributes :: "'d \<Rightarrow> (error + (string \<rightharpoonup> string)) \<times> 'd"
  SetAttributes :: "string \<Rightarrow> 'd \<Rightarrow> (error + unit) \<times> 'd"
  Switch_subscription_update ::
    "string \<Rightarrow> string \<Rightarrow> 'd humidifier \<Rightarrow> (error + bool) \<times> 'd humidifier"

text \<open>
  A method returns its outcome, a value or the exception it raises, together with the object
  as the call leaves it: what a method has changed before it raises stays changed.
\<close>

definition fan_mode :: "'d humidifier \<Rightarrow> pyval option" where
  "fan_mode self = attributes self ''fan_mode''"

definition update_attributes ::
    "'d collaborators \<Rightarrow> 'd humidifier \<Rightarrow> (error + unit) \<times> 'd humidifier" where
  "update_attributes c self =
     (let self1 = self\<lparr>device := snd (GetAttributes c (device self)),
                       calls := calls self @ [GetAttributes_call]\<rparr>
      in case fst (GetAttributes c (device self)) of
           Inl e \<Rightarrow> (Inl e, self1)
         | Inr reply \<Rightarrow>
             (case attribute_xml_to_dict (fromstring c) (reply ''attributeList'') of
                Inl e \<Rightarrow> (Inl e, self1)
              | Inr d \<Rightarrow>
                  (let self2 = self1\<lparr>attributes := d\<rparr>
                   in (Inr (), self2\<lparr>state := fan_mode self2\<rparr>))))"

definition subscription_update ::
    "'d collaborators \<Rightarrow> string \<Rightarrow> string \<Rightarrow> 'd humidifier \<Rightarrow> (error + bool) \<times> 'd humidifier" where
  "subscription_update c type params self =
     (if type = ''attributeList'' then
        (case attribute_xml_to_dict (fromstring c) (Some params) of
           Inl e \<Rightarrow> (Inl e, self)
         | Inr d \<Rightarrow>
             (let self1 = self\<lparr>attributes := attributes self ++ d\<rparr>
              in (Inr True, self1\<lparr>state := fan_mode self1\<rparr>)))
      else Switch_subscription_update c type params self)"

text \<open>
  \<^verbatim>\<open>d.get(key, "Unknown")\<close> on a name table: a key finds an entry when it equals an integer
  of the table, as an int does, a bool (\<^verbatim>\<open>True == 1\<close>) and a float of integral value;
  \<^verbatim>\<open>None\<close> and every other value find nothing. The same equality decides
  \<^verbatim>\<open>self._state != FanMode.Off\<close>.
\<close>

fun integer_value :: "pyval option \<Rightarrow> int option" where
  "integer_value None = None"
| "integer_value (Some (PyInt n)) = Some n"
| "integer_value (Some (PyBool b)) = Some (if b then 1 else 0)"
| "integer_value (Some (PyFloat (Finite r))) = (if r = of_int \<lfloor>r\<rfloor> then Some \<lfloor>r\<rfloor> else None)"
| "integer_value (Some (PyFloat PInf)) = None"
| "integer_value (Some (PyFloat NInf)) = None"
| "integer_value (Some (PyFloat NaN)) = None"

definition names_get :: "(int \<rightharpoonup> string) \<Rightarrow> pyval option \<Rightarrow> string" where
  "names_get names key =
     (case integer_value key of
        None \<Rightarrow> ''Unknown''
      | Some n \<Rightarrow> (case names n of None \<Rightarrow> ''Unknown'' | Some s \<Rightarrow> s))"

definition fan_mode_string :: "'d humidifier \<Rightarrow> string" where
  "fan_mode_string self = names_get FAN_MODE_NAMES (fan_mode self)"

definition desired_humidity :: "'d humidifier \<Rightarrow> pyval option" where
  "desired_humidity self = attributes self ''desired_humidity''"

definition desired_humidity_percent :: "'d humidifier \<Rightarrow> string" where
  "desired_humidity_percent self = names_get DESIRED_HUMIDITY_NAMES (desired_humidity self)"

definition current_humidity_percent :: "'d humidifier \<Rightarrow> pyval option" where
  "current_humidity_percent self = attributes self ''current_humidity''"

definition water_level :: "'d humidifier \<Rightarrow> pyval option" where
  "water_level self = attributes self ''water_level''"

definition water_level_string :: "'d humidifier \<Rightarrow> string" where
  "water_level_string self = names_get WATER_LEVEL_NAMES (water_level self)"

definition filter_life_percent :: "'d humidifier \<Rightarrow> pyval option" where
  "filter_life_percent self = attributes self ''filter_life''"

definition filter_expired :: "'d humidifier \<Rightarrow> pyval option" where
  "filter_expired self = attributes self ''filter_expired''"

definition state_is_on :: "'d humidifier \<Rightarrow> int" where
  \<comment> \<open>\<^verbatim>\<open>int(self._state != FanMode.Off)\<close>\<close>
  "state_is_on self = (if integer_value (state self) \<noteq> Some (FanMode_value Off) then 1 else 0)"

definition get_state ::
    "'d collaborators \<Rightarrow> bool \<Rightarrow> 'd humidifier \<Rightarrow> (error + int) \<times> 'd humidifier" where
  "get_state c force_update self =
     (if force_update \<or> state self = None then
        (case fst (update_attributes c self) of
           Inl e \<Rightarrow> (Inl e, snd (update_attributes c self))
         | Inr u \<Rightarrow> (Inr (state_is_on (snd (update_attributes c self))),
                     snd (update_attributes c self)))
      else (Inr (state_is_on self), self))"

text \<open>
  The setters take the mode and the humidity level as ints, on which \<^verbatim>\<open>int(...)\<close> is the
  identity. Each sends one attribute list and then calls \<^verbatim>\<open>get_state(True)\<close>, whose value it
  drops.
\<close>

definition send_attributes ::
    "'d collaborators \<Rightarrow> string \<Rightarrow> 'd humidifier \<Rightarrow> (error + unit) \<times> 'd humidifier" where
  \<comment> \<open>\<^verbatim>\<open>self.deviceevent.SetAttributes(attributeList=quote_xml(fragment))\<close>, then
      \<^verbatim>\<open>self.get_state(True)\<close>\<close>
  "send_attributes c fragment self =
     (let self1 = self\<lparr>device := snd (SetAttributes c (quote_xml c fragment) (device self)),
                       calls := calls self @ [SetAttributes_call (quote_xml c fragment)]\<rparr>
      in case fst (SetAttributes c (quote_xml c fragment) (device self)) of
           Inl e \<Rightarrow> (Inl e, self1)
         | Inr u \<Rightarrow>
             (case fst (get_state c True self1) of
                Inl e \<Rightarrow> (Inl e, snd (get_state c True self1))
              | Inr v \<Rightarrow> (Inr (), snd (get_state c True self1))))"

definition set_fan_mode ::
    "'d collaborators \<Rightarrow> int \<Rightarrow> 'd humidifier \<Rightarrow> (error + unit) \<times> 'd humidifier" where
  "set_fan_mode c mode self =
     send_attributes c
       (''<attribute><name>FanMode</name><value>'' @ py_str mode @ ''</value></attribute>'') self"

definition set_state ::
    "'d collaborators \<Rightarrow> int \<Rightarrow> 'd humidifier \<Rightarrow> (error + unit) \<times> 'd humidifier" where
  "set_state c st self = set_fan_mode c st self"

definition set_humidity ::
    "'d collaborators \<Rightarrow> int \<Rightarrow> 'd humidifier \<Rightarrow> (error + unit) \<times> 'd humidifier" where
  "set_humidity c level self =
     send_attributes c
       (''<attribute><name>DesiredHumidity</name><value>'' @ py_str level @ ''</value></attribute>'')
       self"

definition set_fan_mode_and_humidity ::
    "'d collaborators \<Rightarrow> int \<Rightarrow> int \<Rightarrow> 'd humidifier \<Rightarrow> (error + unit) \<times> 'd humidifier" where
  "set_fan_mode_and_humidity c mode level self =
     send_attributes c
       (''<attribute><name>FanMode</name><value>'' @ py_str mode @ ''</value></attribute>''
        @ ''<attribute><name>DesiredHumidity</name><value>'' @ py_str level @ ''</value></attribute>'')
       self"

definition init :: "'d collaborators \<Rightarrow> 'd humidifier \<Rightarrow> (error + unit) \<times> 'd humidifier" where
  \<comment> \<open>\<^verbatim>\<open>__init__\<close>, on the object as \<^verbatim>\<open>Switch.__init__\<close> leaves it\<close>
  "init c self = update_attributes c (self\<lparr>attributes := Map.empty\<rparr>)"

section \<open>Vocabulary of the properties\<close>

text \<open>
  A child of the root "is a \<open>name\<close> attribute with value \<open>val\<close>" when its first child has
  the text \<open>name\<close> and its second child the text \<open>val\<close>, which is what the decoder tests.
  A water override is a \<^verbatim>\<open>NoWater\<close> or \<^verbatim>\<open>WaterAdvise\<close> attribute with value \<^verbatim>\<open>"1"\<close>.
\<close>

definition has_attribute :: "element \<Rightarrow> string \<Rightarrow> string \<Rightarrow> bool" where
  "has_attribute a name val \<longleftrightarrow>
     (case children a of
        n # v # rest \<Rightarrow> text_of n = Some name \<and> text_of v = Some val
      | _ \<Rightarrow> False)"

definition water_override :: "element \<Rightarrow> bool" where
  "water_override a \<longleftrightarrow> has_attribute a ''NoWater'' ''1'' \<or> has_attribute a ''WaterAdvise'' ''1''"

definition names_attribute :: "element \<Rightarrow> string \<Rightarrow> bool" where
  \<comment> \<open>the attribute's name, whatever its value\<close>
  "names_attribute a name \<longleftrightarrow> (case children a of n # rest \<Rightarrow> text_of n = Some name | [] \<Rightarrow> False)"

definition lookup_decoded ::
    "(string \<Rightarrow> error + element) \<Rightarrow> string option \<Rightarrow> string \<Rightarrow> error + pyval option" where
  \<comment> \<open>what the decoded dictionary holds under a key, or the exception of the decoder\<close>
  "lookup_decoded parse xml_blob key =
     (case attribute_xml_to_dict parse xml_blob of Inl e \<Rightarrow> Inl e | Inr d \<Rightarrow> Inr (d key))"

text \<open>
  Concrete inputs: the element tree of
  \<^verbatim>\<open><attribute><name>n</name><value>v</value></attribute>\<close> (an empty \<^verbatim>\<open><value>\<close> element has
  the text \<open>None\<close>), and a parser that knows the documents of a table and rejects every
  other string.
\<close>

definition attribute_element :: "string \<Rightarrow> string option \<Rightarrow> element" where
  "attribute_element name val =
     Element ''attribute'' None [Element ''name'' (Some name) [], Element ''value'' val []]"

definition table_parser :: "(string \<times> element) list \<Rightarrow> string \<Rightarrow> error + element" where
  "table_parser table s = (case map_of table s of None \<Rightarrow> Inl ParseError | Some doc \<Rightarrow> Inr doc)"

definition attributes_element :: "(string \<times> string option) list \<Rightarrow> element" where
  "attributes_element nvs = Element ''attributes'' None (map (\<lambda>(n, v). attribute_element n v) nvs)"

text \<open>
  A device that answers every \<^verbatim>\<open>GetAttributes\<close> with the same attribute list and accepts every
  \<^verbatim>\<open>SetAttributes\<close>, with a stand-in for \<^verbatim>\<open>quote_xml\<close> that escapes the two angle brackets and
  a base class that handles no notification.
\<close>

definition answering :: "(string \<times> element) list \<Rightarrow> string \<Rightarrow> unit collaborators" where
  "answering table blob =
     \<lparr>fromstring = table_parser table,
      quote_xml = (\<lambda>s. str_replace ''>'' ''&gt;'' (str_replace ''<'' ''&lt;'' s)),
      GetAttributes = (\<lambda>d. (Inr [''attributeList'' \<mapsto> blob], d)),
      SetAttributes = (\<lambda>s d. (Inr (), d)),
      Switch_subscription_update = (\<lambda>t p self. (Inr False, self))\<rparr>"

section \<open>Lemmas about the conversions\<close>

text \<open>\<^verbatim>\<open>int(str(n))\<close> is \<open>n\<close>: \<open>py_str\<close> writes the decimal string that \<open>int_of_str\<close> reads.\<close>

lemma digit_nth:
  assumes "k < 10"
  shows "is_digit (''0123456789'' ! k)" and "digit_val (''0123456789'' ! k) = int k"
    and "\<not> is_space (''0123456789'' ! k)" and "''0123456789'' ! k \<noteq> CHR ''_''"
    and "''0123456789'' ! k \<noteq> CHR ''-''" and "''0123456789'' ! k \<noteq> CHR ''+''"
proof -
  from assms have "k \<in> {0, 1, 2, 3, 4, 5, 6, 7, 8, 9}" by auto
  then show "is_digit (''0123456789'' ! k)" and "digit_val (''0123456789'' ! k) = int k"
    and "\<not> is_space (''0123456789'' ! k)" and "''0123456789'' ! k \<noteq> CHR ''_''"
    and "''0123456789'' ! k \<noteq> CHR ''-''" and "''0123456789'' ! k \<noteq> CHR ''+''"
    by (auto simp: is_digit_def digit_val_def is_space_def)
qed

lemma is_digit_plain:
  assumes "is_digit c"
  shows "\<not> is_space c" and "c \<noteq> CHR ''_''" and "c \<noteq> CHR ''-''" and "c \<noteq> CHR ''+''"
  using assms by (auto simp: is_digit_def is_space_def)

lemma digits_of_nat_digits:
  "digits_of_nat n \<noteq> [] \<and> list_all is_digit (digits_of_nat n)"
proof (induction n rule: digits_of_nat.induct)
  case (1 n)
  show ?case
  proof (cases "n < 10")
    case True
    then show ?thesis
      unfolding digits_of_nat.simps [of n] by (simp add: digit_nth(1))
  next
    case False
    have "n mod 10 < 10" by simp
    from digit_nth(1) [OF this] False 1 show ?thesis
      unfolding digits_of_nat.simps [of n] by simp
  qed
qed

lemma int_of_digits_snoc: "int_of_digits (ds @ [c]) = 10 * int_of_digits ds + digit_val c"
  by (simp add: int_of_digits_def)

lemma int_of_digits_of_nat: "int_of_digits (digits_of_nat n) = int n"
proof (induction n rule: digits_of_nat.induct)
  case (1 n)
  show ?case
  proof (cases "n < 10")
    case True
    then show ?thesis
      by (subst digits_of_nat.simps) (simp add: int_of_digits_def digit_nth(2))
  next
    case False
    have "n mod 10 < 10" by simp
    from digit_nth(2) [OF this] False 1 show ?thesis
      by (subst digits_of_nat.simps) (simp add: int_of_digits_snoc zdiv_int zmod_int)
  qed
qed

lemma dropWhile_none: "\<forall>c \<in> set s. \<not> P c \<Longrightarrow> dropWhile P s = s"
  by (cases s) simp_all

lemma strip_no_space:
  assumes "\<forall>c \<in> set s. \<not> is_space c"
  shows "strip s = s"
proof -
  from assms have "dropWhile is_space s = s"
    by (rule dropWhile_none)
  moreover from assms have "dropWhile is_space (rev s) = rev s"
    by (intro dropWhile_none) simp
  ultimately show ?thesis by (simp add: strip_def)
qed

lemma strip_underscores_none:
  "prev \<noteq> CHR ''_'' \<Longrightarrow> \<forall>c \<in> set ds. c \<noteq> CHR ''_'' \<Longrightarrow> strip_underscores prev ds = Some ds"
  by (induction ds arbitrary: prev) auto

lemma int_of_str_py_str: "int_of_str (py_str n) = Some n"
proof -
  let ?m = "if n < 0 then nat (- n) else nat n"
  let ?ds = "digits_of_nat ?m"
  from digits_of_nat_digits [of ?m] have ne: "?ds \<noteq> []" and dig: "list_all is_digit ?ds"
    by simp_all
  from dig have nsp: "\<forall>c \<in> set ?ds. \<not> is_space c"
    and nus: "\<forall>c \<in> set ?ds. c \<noteq> CHR ''_''"
    and nsg: "\<forall>c \<in> set ?ds. c \<noteq> CHR ''-'' \<and> c \<noteq> CHR ''+''"
    using is_digit_plain by (auto simp: list_all_iff)
  have su: "strip_underscores (CHR 0x00) ?ds = Some ?ds"
    by (rule strip_underscores_none) (use nus in simp_all)
  show ?thesis
  proof (cases "n < 0")
    case True
    then have p: "py_str n = CHR ''-'' # ?ds" by (simp add: py_str_def)
    from nsp have "\<forall>c \<in> set (CHR ''-'' # ?ds). \<not> is_space c" by (simp add: is_space_def)
    then have "strip (py_str n) = CHR ''-'' # ?ds" unfolding p by (rule strip_no_space)
    with su dig ne True show ?thesis
      by (simp add: int_of_str_def split_sign_def int_of_digits_of_nat)
  next
    case False
    then have p: "py_str n = ?ds" by (simp add: py_str_def)
    from nsp have "strip (py_str n) = ?ds" unfolding p by (rule strip_no_space)
    moreover from ne nsg have "split_sign ?ds = (False, ?ds)"
      by (cases ?ds) (auto simp: split_sign_def)
    ultimately show ?thesis using su dig ne False
      by (simp add: int_of_str_def int_of_digits_of_nat)
  qed
qed

section \<open>Lemmas about the decoder\<close>

lemma loop_append:
  "attribute_xml_to_dict_loop (xs @ ys) r =
     (case attribute_xml_to_dict_loop xs r of
        Inl e \<Rightarrow> Inl e
      | Inr r' \<Rightarrow> attribute_xml_to_dict_loop ys r')"
  by (induction xs arbitrary: r) (auto split: sum.splits)

lemma except_ValueError_cases:
  "except_ValueError conv assign r = Inr r' \<Longrightarrow>
     (conv = Inl ValueError \<and> r' = r) \<or> (\<exists>v. conv = Inr v \<and> r' = assign v)"
  by (auto simp: except_ValueError_def split: sum.splits if_splits)

lemma body_unfold:
  assumes "children a = n # v # rest"
  shows "attribute_xml_to_dict_body a r =
     (if text_of n = Some ''FanMode'' then
        except_ValueError (py_int (text_of v)) (\<lambda>n. r(''fan_mode'' \<mapsto> PyInt n)) r
      else if text_of n = Some ''DesiredHumidity'' then
        except_ValueError (py_int (text_of v)) (\<lambda>n. r(''desired_humidity'' \<mapsto> PyInt n)) r
      else if text_of n = Some ''CurrentHumidity'' then
        except_ValueError (py_float (text_of v)) (\<lambda>x. r(''current_humidity'' \<mapsto> PyFloat x)) r
      else if text_of n = Some ''NoWater'' then
        (if text_of v = Some ''1'' then Inr (r(''water_level'' \<mapsto> PyInt 0)) else Inr r)
      else if text_of n = Some ''WaterAdvise'' then
        (if text_of v = Some ''1'' then Inr (r(''water_level'' \<mapsto> PyInt 1)) else Inr r)
      else if text_of n = Some ''FilterLife'' then
        except_ValueError (filter_life_of (text_of v)) (\<lambda>x. r(''filter_life'' \<mapsto> PyFloat x)) r
      else if text_of n = Some ''ExpiredFilterTime'' then
        except_ValueError (py_int (text_of v)) (\<lambda>n. r(''filter_expired'' \<mapsto> PyBool (n \<noteq> 0))) r
      else Inr r)"
  using assms by (simp add: attribute_xml_to_dict_body_def getitem_def)

lemma loop_skip:
  assumes "\<And>r. attribute_xml_to_dict_body a r = Inr r"
  shows "attribute_xml_to_dict_loop (before @ a # after) r = attribute_xml_to_dict_loop (before @ after) r"
  using assms by (simp add: loop_append split: sum.splits)

lemma body_water_level:
  assumes "attribute_xml_to_dict_body a r = Inr r'"
  shows "r' ''water_level'' =
           (if has_attribute a ''NoWater'' ''1'' then Some (PyInt 0)
            else if has_attribute a ''WaterAdvise'' ''1'' then Some (PyInt 1)
            else r ''water_level'')"
proof (cases "children a")
  case Nil
  with assms show ?thesis by (simp add: attribute_xml_to_dict_body_def getitem_def)
next
  case (Cons n rest)
  show ?thesis
  proof (cases rest)
    case Nil
    with Cons assms show ?thesis
      by (auto simp: attribute_xml_to_dict_body_def getitem_def has_attribute_def split: if_splits)
  next
    case (Cons v rest')
    with \<open>children a = n # rest\<close> assms show ?thesis
      by (auto simp: attribute_xml_to_dict_body_def getitem_def has_attribute_def
               split: if_splits dest!: except_ValueError_cases)
  qed
qed

lemma loop_water_level:
  "attribute_xml_to_dict_loop as r = Inr r' \<Longrightarrow>
   r' ''water_level'' =
     (if filter water_override as = [] then r ''water_level''
      else if has_attribute (last (filter water_override as)) ''NoWater'' ''1'' then Some (PyInt 0)
      else Some (PyInt 1))"
proof (induction as arbitrary: r)
  case Nil
  then show ?case by simp
next
  case (Cons a as)
  from Cons.prems obtain r1 where b: "attribute_xml_to_dict_body a r = Inr r1"
    and l: "attribute_xml_to_dict_loop as r1 = Inr r'"
    by (auto split: sum.splits)
  from Cons.IH [OF l] body_water_level [OF b] show ?case
    by (auto simp: water_override_def [of a])
qed

lemma last_override:
  assumes "water_override a" and "\<forall>b \<in> set after. \<not> water_override b"
  shows "filter water_override (before @ a # after) \<noteq> []
    \<and> last (filter water_override (before @ a # after)) = a"
proof -
  from assms(2) have "filter water_override after = []"
    by (simp add: filter_empty_conv)
  with assms(1) show ?thesis by simp
qed

lemma body_keeps_filter_life:
  assumes "attribute_xml_to_dict_body a r = Inr r'" and "\<not> names_attribute a ''FilterLife''"
  shows "r' ''filter_life'' = r ''filter_life''"
proof (cases "children a")
  case Nil
  with assms show ?thesis by (simp add: attribute_xml_to_dict_body_def getitem_def)
next
  case (Cons n rest)
  show ?thesis
  proof (cases rest)
    case Nil
    with Cons assms show ?thesis
      by (auto simp: attribute_xml_to_dict_body_def getitem_def split: if_splits)
  next
    case (Cons v rest')
    with \<open>children a = n # rest\<close> have c: "children a = n # v # rest'" by simp
    from assms c show ?thesis
      by (auto simp: body_unfold [OF c] names_attribute_def
               split: if_splits dest!: except_ValueError_cases)
  qed
qed

lemma loop_keeps_filter_life:
  "attribute_xml_to_dict_loop as r = Inr r' \<Longrightarrow>
   \<forall>b \<in> set as. \<not> names_attribute b ''FilterLife'' \<Longrightarrow>
   r' ''filter_life'' = r ''filter_life''"
proof (induction as arbitrary: r)
  case Nil
  then show ?case by simp
next
  case (Cons a as)
  from Cons.prems(1) obtain r1 where b: "attribute_xml_to_dict_body a r = Inr r1"
    and l: "attribute_xml_to_dict_loop as r1 = Inr r'"
    by (auto split: sum.splits)
  from Cons.prems(2) have "r1 ''filter_life'' = r ''filter_life''"
    by (intro body_keeps_filter_life [OF b]) simp
  moreover from Cons.prems(2) have "r' ''filter_life'' = r1 ''filter_life''"
    by (intro Cons.IH [OF l]) simp
  ultimately show ?case by simp
qed

lemma float_of_int_60480: "float_of_int 60480 = Finite 60480"
  by code_simp

lemma float_of_int_100: "float_of_int 100 = Finite 100"
  by code_simp

lemma truediv_60480: "\<exists>x. float_truediv raw (float_of_int 60480) = Inr x"
  by (cases raw) (simp_all add: float_of_int_60480 float_truediv_def)

lemma filter_life_30240: "filter_life_of (Some ''30240'') = Inr (Finite 50)"
  by code_simp

text \<open>
  The decoder returns when every child of the root has a name element and a value element
  with text; what it reports as \<^verbatim>\<open>fan_mode\<close> is an int.
\<close>

lemma body_returns:
  assumes "children a = n # v # rest" and "text_of v \<noteq> None"
  shows "\<exists>r'. attribute_xml_to_dict_body a r = Inr r'"
proof -
  from assms(2) obtain s where s: "text_of v = Some s" by auto
  have i: "\<exists>r'. except_ValueError (py_int (Some s)) f r = Inr r'" for f :: "int \<Rightarrow> pydict"
    by (cases "int_of_str s") (simp_all add: py_int_def except_ValueError_def)
  have x: "\<exists>r'. except_ValueError (py_float (Some s)) f r = Inr r'" for f :: "pyfloat \<Rightarrow> pydict"
    by (cases "float_of_str s") (simp_all add: py_float_def except_ValueError_def)
  have l: "\<exists>r'. except_ValueError (filter_life_of (Some s)) f r = Inr r'" for f :: "pyfloat \<Rightarrow> pydict"
  proof (cases "float_of_str s")
    case None
    then show ?thesis by (simp add: filter_life_of_def py_float_def except_ValueError_def)
  next
    case (Some raw)
    from truediv_60480 [of raw] obtain y where "float_truediv raw (float_of_int 60480) = Inr y" ..
    with Some show ?thesis by (simp add: filter_life_of_def py_float_def except_ValueError_def)
  qed
  from i x l show ?thesis
    by (simp add: body_unfold [OF assms(1)] s)
qed

lemma loop_returns:
  assumes "\<forall>a \<in> set as. \<exists>n v rest. children a = n # v # rest \<and> text_of v \<noteq> None"
  shows "\<exists>r'. attribute_xml_to_dict_loop as r = Inr r'"
  using assms
proof (induction as arbitrary: r)
  case Nil
  then show ?case by simp
next
  case (Cons a as)
  from Cons.prems obtain n v rest where "children a = n # v # rest" "text_of v \<noteq> None"
    by auto
  from body_returns [OF this] obtain r1 where "attribute_xml_to_dict_body a r = Inr r1" ..
  moreover from Cons.IH Cons.prems obtain r' where "attribute_xml_to_dict_loop as r1 = Inr r'"
    by auto
  ultimately show ?case by simp
qed

lemma decoder_returns:
  assumes "parse (wrap_blob blob) = Inr doc"
    and "\<forall>a \<in> set (children doc). \<exists>n v rest. children a = n # v # rest \<and> text_of v \<noteq> None"
  shows "\<exists>delta. attribute_xml_to_dict parse (Some blob) = Inr delta"
  using assms(1) loop_returns [OF assms(2)] by (simp add: attribute_xml_to_dict_def)

lemma body_fan_mode_int:
  assumes "attribute_xml_to_dict_body a r = Inr r'"
    and "r ''fan_mode'' = None \<or> (\<exists>n. r ''fan_mode'' = Some (PyInt n))"
  shows "r' ''fan_mode'' = None \<or> (\<exists>n. r' ''fan_mode'' = Some (PyInt n))"
proof (cases "children a")
  case Nil
  with assms show ?thesis by (simp add: attribute_xml_to_dict_body_def getitem_def)
next
  case (Cons n rest)
  show ?thesis
  proof (cases rest)
    case Nil
    with Cons assms show ?thesis
      by (auto simp: attribute_xml_to_dict_body_def getitem_def split: if_splits)
  next
    case (Cons v rest')
    with \<open>children a = n # rest\<close> have c: "children a = n # v # rest'" by simp
    from assms show ?thesis
      by (auto simp: body_unfold [OF c] split: if_splits dest!: except_ValueError_cases)
  qed
qed

lemma loop_fan_mode_int:
  "attribute_xml_to_dict_loop as r = Inr r' \<Longrightarrow>
   r ''fan_mode'' = None \<or> (\<exists>n. r ''fan_mode'' = Some (PyInt n)) \<Longrightarrow>
   r' ''fan_mode'' = None \<or> (\<exists>n. r' ''fan_mode'' = Some (PyInt n))"
proof (induction as arbitrary: r)
  case Nil
  then show ?case by simp
next
  case (Cons a as)
  from Cons.prems(1) obtain r1 where b: "attribute_xml_to_dict_body a r = Inr r1"
    and l: "attribute_xml_to_dict_loop as r1 = Inr r'"
    by (auto split: sum.splits)
  from Cons.IH [OF l body_fan_mode_int [OF b Cons.prems(2)]] show ?case .
qed

lemma decoded_fan_mode_int:
  assumes "attribute_xml_to_dict parse xml_blob = Inr delta"
  shows "delta ''fan_mode'' = None \<or> (\<exists>n. delta ''fan_mode'' = Some (PyInt n))"
  using assms
  by (auto simp: attribute_xml_to_dict_def split: option.splits sum.splits
           dest!: loop_fan_mode_int)

lemma integer_value_fan_mode:
  assumes "m = None \<or> (\<exists>n. m = Some (PyInt n))"
  shows "integer_value m = Some 0 \<longleftrightarrow> m = Some (PyInt 0)"
  using assms by auto

lemma conversion_failure_dropped:
  assumes "children a = n # v # rest"
    and "text_of n = Some ''FanMode'' \<and> py_int (text_of v) = Inl ValueError
       \<or> text_of n = Some ''DesiredHumidity'' \<and> py_int (text_of v) = Inl ValueError
       \<or> text_of n = Some ''CurrentHumidity'' \<and> py_float (text_of v) = Inl ValueError
       \<or> text_of n = Some ''FilterLife'' \<and> py_float (text_of v) = Inl ValueError
       \<or> text_of n = Some ''ExpiredFilterTime'' \<and> py_int (text_of v) = Inl ValueError"
  shows "attribute_xml_to_dict_body a result = Inr result
       \<and> attribute_xml_to_dict_loop (before @ a # after) result
           = attribute_xml_to_dict_loop (before @ after) result"
proof -
  have "attribute_xml_to_dict_body a r = Inr r" for r
    using assms(2)
    by (auto simp: body_unfold [OF assms(1)] except_ValueError_def filter_life_of_def)
  then show ?thesis by (simp add: loop_skip)
qed

lemma empty_value_raises:
  assumes "children a = n # v # rest"
    and "text_of n \<in> {Some ''FanMode'', Some ''DesiredHumidity'', Some ''CurrentHumidity'',
                      Some ''FilterLife'', Some ''ExpiredFilterTime''}"
    and "text_of v = None"
  shows "attribute_xml_to_dict_body a result = Inl TypeError"
  using assms(2,3)
  by (auto simp: body_unfold [OF assms(1)] except_ValueError_def filter_life_of_def
                 py_int_def py_float_def)

subsection \<open>Evaluating the decoder on a concrete fragment\<close>

lemma children_attribute_element:
  "children (attribute_element name val) = [Element ''name'' (Some name) [], Element ''value'' val []]"
  by (simp add: attribute_element_def)

lemma has_attribute_element:
  "has_attribute (attribute_element n v) name val \<longleftrightarrow> n = name \<and> v = Some val"
  by (simp add: has_attribute_def attribute_element_def)

lemma names_attribute_element:
  "names_attribute (attribute_element n v) name \<longleftrightarrow> n = name"
  by (simp add: names_attribute_def attribute_element_def)

lemma water_override_element:
  "water_override (attribute_element n v) \<longleftrightarrow> (n = ''NoWater'' \<or> n = ''WaterAdvise'') \<and> v = Some ''1''"
  by (auto simp: water_override_def has_attribute_element)

lemmas body_attribute_element = body_unfold [OF children_attribute_element, simplified element.sel option.inject]

lemma decode_table:
  assumes "map_of table (wrap_blob blob) = Some doc"
  shows "table_parser table (wrap_blob blob) = Inr doc"
    and "attribute_xml_to_dict (table_parser table) (Some blob)
           = attribute_xml_to_dict_loop (children doc) [''water_level'' \<mapsto> PyInt 2]"
  using assms by (simp_all add: attribute_xml_to_dict_def table_parser_def)

lemma py_int_3: "py_int (Some ''3'') = Inr 3"
  by code_simp

lemma py_float_30240: "py_float (Some ''30240'') = Inr (Finite 30240)"
  by code_simp

lemma filter_life_60480: "filter_life_of (Some ''60480'') = Inr (Finite 100)"
  by code_simp

lemma py_float_42_5: "py_float (Some ''42.5'') = Inr (Finite (85 / 2))"
  by code_simp


lemma py_str_4: "py_str 4 = ''4''"
  by code_simp

lemma decode_humidity_only:
  "attribute_xml_to_dict
     (table_parser [(''<attributes><attribute><name>CurrentHumidity</name><value>42.5</value></attribute></attributes>'',
                     attributes_element [(''CurrentHumidity'', Some ''42.5'')])])
     (Some ''<attribute><name>CurrentHumidity</name><value>42.5</value></attribute>'')
   = Inr [''water_level'' \<mapsto> PyInt 2, ''current_humidity'' \<mapsto> PyFloat (Finite (85 / 2))]"
proof -
  let ?blob = "''<attribute><name>CurrentHumidity</name><value>42.5</value></attribute>''"
  let ?doc = "attributes_element [(''CurrentHumidity'', Some ''42.5'')]"
  let ?table = "[(''<attributes><attribute><name>CurrentHumidity</name><value>42.5</value></attribute></attributes>'', ?doc)]"
  have m: "map_of ?table (wrap_blob ?blob) = Some ?doc"
    by (simp add: wrap_blob_def)
  show ?thesis
    by (subst decode_table(2) [OF m])
       (simp add: attributes_element_def body_attribute_element py_float_42_5
          except_ValueError_def)
qed


section \<open>Lemmas about the device object\<close>

lemma update_attributes_calls:
  "calls (snd (update_attributes c self)) = calls self @ [GetAttributes_call]"
  by (simp add: update_attributes_def Let_def split: sum.splits)

lemma update_attributes_returns:
  assumes "update_attributes c self = (Inr u, self')"
  shows "\<exists>reply. fst (GetAttributes c (device self)) = Inr reply
           \<and> attribute_xml_to_dict (fromstring c) (reply ''attributeList'') = Inr (attributes self')
           \<and> state self' = fan_mode self'"
  using assms by (auto simp: update_attributes_def Let_def fan_mode_def split: sum.splits)

lemma update_attributes_raises:
  assumes "update_attributes c self = (Inl e, self')"
  shows "attributes self' = attributes self \<and> state self' = state self"
  using assms by (auto simp: update_attributes_def Let_def split: sum.splits)

lemma subscription_update_returns:
  assumes "subscription_update c ''attributeList'' params self = (Inr b, self')"
  shows "\<exists>delta. attribute_xml_to_dict (fromstring c) (Some params) = Inr delta
           \<and> attributes self' = attributes self ++ delta
           \<and> state self' = fan_mode self'"
  using assms by (auto simp: subscription_update_def Let_def fan_mode_def split: sum.splits)


lemma get_state_refresh:
  assumes "force_update \<or> state self = None"
  shows "get_state c force_update self =
           (case fst (update_attributes c self) of
              Inl e \<Rightarrow> (Inl e, snd (update_attributes c self))
            | Inr u \<Rightarrow> (Inr (state_is_on (snd (update_attributes c self))),
                        snd (update_attributes c self)))"
  using assms by (auto simp: get_state_def)


lemma get_state_forced_calls:
  "calls (snd (get_state c True self)) = calls self @ [GetAttributes_call]"
  by (simp add: get_state_refresh update_attributes_calls split: sum.splits)

text \<open>Every method keeps \<^verbatim>\<open>_state\<close> equal to the cached fan mode.\<close>

lemma update_attributes_mirrors:
  assumes "state self = fan_mode self"
  shows "state (snd (update_attributes c self)) = fan_mode (snd (update_attributes c self))"
  using assms by (simp add: update_attributes_def Let_def fan_mode_def split: sum.splits)

lemma subscription_update_mirrors:
  assumes "state self = fan_mode self"
  shows "state (snd (subscription_update c ''attributeList'' params self))
           = fan_mode (snd (subscription_update c ''attributeList'' params self))"
  using assms by (simp add: subscription_update_def Let_def fan_mode_def split: sum.splits)

lemma get_state_mirrors:
  assumes "state self = fan_mode self"
  shows "state (snd (get_state c force_update self)) = fan_mode (snd (get_state c force_update self))"
  using assms update_attributes_mirrors [OF assms, of c]
  by (simp add: get_state_def split: sum.splits)

lemma send_attributes_mirrors:
  assumes "state self = fan_mode self"
  shows "state (snd (send_attributes c fragment self))
           = fan_mode (snd (send_attributes c fragment self))"
proof -
  let ?sent = "self\<lparr>device := snd (SetAttributes c (quote_xml c fragment) (device self)),
                      calls := calls self @ [SetAttributes_call (quote_xml c fragment)]\<rparr>"
  from assms have "state ?sent = fan_mode ?sent" by (simp add: fan_mode_def)
  from get_state_mirrors [OF this, of c True] assms show ?thesis
    by (simp add: send_attributes_def Let_def fan_mode_def split: sum.splits)
qed

lemma init_mirrors:
  assumes "init c self = (Inr u, self')"
  shows "state self' = fan_mode self'"
  using assms update_attributes_returns unfolding init_def by blast

lemma send_attributes_calls:
  "calls (snd (send_attributes c fragment self)) =
     calls self @ SetAttributes_call (quote_xml c fragment)
       # (case fst (SetAttributes c (quote_xml c fragment) (device self)) of
            Inl e \<Rightarrow> [] | Inr ack \<Rightarrow> [GetAttributes_call])"
  by (simp add: send_attributes_def Let_def get_state_forced_calls split: sum.splits)

subsection \<open>The device object on the concrete device\<close>

lemma update_attributes_answering:
  assumes "attribute_xml_to_dict (table_parser table) (Some blob) = Inr d"
  shows "update_attributes (answering table blob) self
           = (Inr (), self\<lparr>attributes := d, state := d ''fan_mode'',
                              calls := calls self @ [GetAttributes_call]\<rparr>)"
  using assms by (simp add: update_attributes_def answering_def fan_mode_def)

lemma subscription_update_answering:
  assumes "attribute_xml_to_dict (table_parser table) (Some params) = Inr d"
  shows "subscription_update (answering table blob) ''attributeList'' params self
           = (Inr True, self\<lparr>attributes := attributes self ++ d,
                                state := (attributes self ++ d) ''fan_mode''\<rparr>)"
  using assms by (simp add: subscription_update_def answering_def fan_mode_def)

section \<open>The water level is always decoded\<close>

text \<open>
  C2. When the parser accepts the wrapped fragment and the decoder returns a dictionary, the
  dictionary has the key \<^verbatim>\<open>water_level\<close>. Its value is Good (2) when no child of the root is
  a \<^verbatim>\<open>NoWater\<close> or \<^verbatim>\<open>WaterAdvise\<close> attribute with value \<^verbatim>\<open>"1"\<close>; Empty (0) when a
  \<^verbatim>\<open>NoWater\<close> attribute with value \<^verbatim>\<open>"1"\<close> is followed by no water override; Low (1) when a
  \<^verbatim>\<open>WaterAdvise\<close> attribute with value \<^verbatim>\<open>"1"\<close> is followed by no water override.
\<close>

theorem water_level_always_decoded:
  assumes "parse (wrap_blob blob) = Inr doc"
    and "attribute_xml_to_dict parse (Some blob) = Inr delta"
  shows "delta ''water_level'' \<noteq> None
    \<and> ((\<forall>a \<in> set (children doc).
           \<not> has_attribute a ''NoWater'' ''1'' \<and> \<not> has_attribute a ''WaterAdvise'' ''1'') \<longrightarrow>
         delta ''water_level'' = Some (PyInt (WaterLevel_value Good)))
    \<and> (\<forall>before a after.
          children doc = before @ a # after \<and> has_attribute a ''NoWater'' ''1''
          \<and> (\<forall>b \<in> set after. \<not> water_override b) \<longrightarrow>
          delta ''water_level'' = Some (PyInt (WaterLevel_value Empty)))
    \<and> (\<forall>before a after.
          children doc = before @ a # after \<and> has_attribute a ''WaterAdvise'' ''1''
          \<and> (\<forall>b \<in> set after. \<not> water_override b) \<longrightarrow>
          delta ''water_level'' = Some (PyInt (WaterLevel_value Low_water)))"
proof -
  from assms have l:
    "attribute_xml_to_dict_loop (children doc) [''water_level'' \<mapsto> PyInt 2] = Inr delta"
    by (simp add: attribute_xml_to_dict_def)
  note w = loop_water_level [OF l]
  have 1: "delta ''water_level'' \<noteq> None"
    using w by (simp split: if_splits)
  have 2: "delta ''water_level'' = Some (PyInt (WaterLevel_value Good))"
    if "\<forall>a \<in> set (children doc).
          \<not> has_attribute a ''NoWater'' ''1'' \<and> \<not> has_attribute a ''WaterAdvise'' ''1''"
  proof -
    from that have "filter water_override (children doc) = []"
      by (simp add: filter_empty_conv water_override_def)
    with w show ?thesis by simp
  qed
  have 3: "delta ''water_level'' = Some (PyInt (WaterLevel_value Empty))"
    if "children doc = before @ a # after" and "has_attribute a ''NoWater'' ''1''"
      and "\<forall>b \<in> set after. \<not> water_override b" for before a after
  proof -
    from that(2) have "water_override a" by (simp add: water_override_def)
    from last_override [OF this that(3), of before] w that(1,2) show ?thesis by simp
  qed
  have 4: "delta ''water_level'' = Some (PyInt (WaterLevel_value Low_water))"
    if "children doc = before @ a # after" and "has_attribute a ''WaterAdvise'' ''1''"
      and "\<forall>b \<in> set after. \<not> water_override b" for before a after
  proof -
    from that(2) have wa: "water_override a" by (simp add: water_override_def)
    from that(2) have "\<not> has_attribute a ''NoWater'' ''1''"
      by (auto simp: has_attribute_def split: list.splits)
    with last_override [OF wa that(3), of before] w that(1) show ?thesis by simp
  qed
  from 1 2 3 4 show ?thesis by blast
qed

theorem water_level_always_decoded_witness:
  "lookup_decoded
     (table_parser [(''<attributes><attribute><name>FanMode</name><value>3</value></attribute></attributes>'',
                    attributes_element [(''FanMode'', Some ''3'')])])
     (Some ''<attribute><name>FanMode</name><value>3</value></attribute>'') ''water_level''
     = Inr (Some (PyInt 2))
   \<and> lookup_decoded
     (table_parser [(''<attributes><attribute><name>NoWater</name><value>1</value></attribute></attributes>'',
                    attributes_element [(''NoWater'', Some ''1'')])])
     (Some ''&lt;attribute&gt;&lt;name&gt;NoWater&lt;/name&gt;&lt;value&gt;1&lt;/value&gt;&lt;/attribute&gt;'')
     ''water_level''
     = Inr (Some (PyInt 0))
   \<and> lookup_decoded
     (table_parser [(''<attributes><attribute><name>WaterAdvise</name><value>1</value></attribute><attribute><name>FanMode</name><value>3</value></attribute></attributes>'',
                    attributes_element [(''WaterAdvise'', Some ''1''), (''FanMode'', Some ''3'')])])
     (Some ''<attribute><name>WaterAdvise</name><value>1</value></attribute><attribute><name>FanMode</name><value>3</value></attribute>'')
     ''water_level''
     = Inr (Some (PyInt 1))"
proof (intro conjI)
  let ?blob = "''<attribute><name>FanMode</name><value>3</value></attribute>''"
  let ?doc = "attributes_element [(''FanMode'', Some ''3'')]"
  let ?table = "[(''<attributes><attribute><name>FanMode</name><value>3</value></attribute></attributes>'', ?doc)]"
  have m: "map_of ?table (wrap_blob ?blob) = Some ?doc"
    by (simp add: wrap_blob_def)
  have d: "attribute_xml_to_dict (table_parser ?table) (Some ?blob)
             = Inr [''water_level'' \<mapsto> PyInt 2, ''fan_mode'' \<mapsto> PyInt 3]"
    by (subst decode_table(2) [OF m])
       (simp add: attributes_element_def body_attribute_element py_int_3 except_ValueError_def)
  from water_level_always_decoded [OF decode_table(1) [OF m] d]
  have "[''water_level'' \<mapsto> PyInt 2, ''fan_mode'' \<mapsto> PyInt 3] ''water_level''
          = Some (PyInt (WaterLevel_value Good))"
    by (simp add: attributes_element_def has_attribute_element)
  with d show "lookup_decoded (table_parser ?table) (Some ?blob) ''water_level'' = Inr (Some (PyInt 2))"
    by (simp add: lookup_decoded_def)
next
  let ?blob = "''&lt;attribute&gt;&lt;name&gt;NoWater&lt;/name&gt;&lt;value&gt;1&lt;/value&gt;&lt;/attribute&gt;''"
  let ?doc = "attributes_element [(''NoWater'', Some ''1'')]"
  let ?table = "[(''<attributes><attribute><name>NoWater</name><value>1</value></attribute></attributes>'', ?doc)]"
  have m: "map_of ?table (wrap_blob ?blob) = Some ?doc"
    by (simp add: wrap_blob_def)
  have d: "attribute_xml_to_dict (table_parser ?table) (Some ?blob)
             = Inr [''water_level'' \<mapsto> PyInt 0]"
    by (subst decode_table(2) [OF m])
       (simp add: attributes_element_def body_attribute_element)
  have c: "children ?doc = [] @ attribute_element ''NoWater'' (Some ''1'') # []"
    by (simp add: attributes_element_def)
  from water_level_always_decoded [OF decode_table(1) [OF m] d] c
  have "[''water_level'' \<mapsto> PyInt 0] ''water_level'' = Some (PyInt (WaterLevel_value Empty))"
    by (simp add: has_attribute_element)
  with d show "lookup_decoded (table_parser ?table) (Some ?blob) ''water_level'' = Inr (Some (PyInt 0))"
    by (simp add: lookup_decoded_def)
next
  let ?blob = "''<attribute><name>WaterAdvise</name><value>1</value></attribute><attribute><name>FanMode</name><value>3</value></attribute>''"
  let ?doc = "attributes_element [(''WaterAdvise'', Some ''1''), (''FanMode'', Some ''3'')]"
  let ?table = "[(''<attributes><attribute><name>WaterAdvise</name><value>1</value></attribute><attribute><name>FanMode</name><value>3</value></attribute></attributes>'', ?doc)]"
  have m: "map_of ?table (wrap_blob ?blob) = Some ?doc"
    by (simp add: wrap_blob_def)
  have d: "attribute_xml_to_dict (table_parser ?table) (Some ?blob)
             = Inr [''water_level'' \<mapsto> PyInt 1, ''fan_mode'' \<mapsto> PyInt 3]"
    by (subst decode_table(2) [OF m])
       (simp add: attributes_element_def body_attribute_element py_int_3 except_ValueError_def)
  have c: "children ?doc = [] @ attribute_element ''WaterAdvise'' (Some ''1'')
                             # [attribute_element ''FanMode'' (Some ''3'')]"
    by (simp add: attributes_element_def)
  from water_level_always_decoded [OF decode_table(1) [OF m] d] c
  have "[''water_level'' \<mapsto> PyInt 1, ''fan_mode'' \<mapsto> PyInt 3] ''water_level''
          = Some (PyInt (WaterLevel_value Low_water))"
    by (simp add: has_attribute_element water_override_element)
  with d show "lookup_decoded (table_parser ?table) (Some ?blob) ''water_level'' = Inr (Some (PyInt 1))"
    by (simp add: lookup_decoded_def)
qed

section \<open>The last water attribute wins\<close>

text \<open>
  C3. When the fragment holds both a \<^verbatim>\<open>NoWater\<close> attribute with value \<^verbatim>\<open>"1"\<close> and a
  \<^verbatim>\<open>WaterAdvise\<close> attribute with value \<^verbatim>\<open>"1"\<close>, the decoded water level is the one set by
  the last water override in document order: 0 when that one is \<^verbatim>\<open>NoWater\<close>, 1 when it is
  \<^verbatim>\<open>WaterAdvise\<close>.
\<close>

theorem last_water_attribute_wins:
  assumes "parse (wrap_blob blob) = Inr doc"
    and "attribute_xml_to_dict parse (Some blob) = Inr delta"
    and "\<exists>a \<in> set (children doc). has_attribute a ''NoWater'' ''1''"
    and "\<exists>a \<in> set (children doc). has_attribute a ''WaterAdvise'' ''1''"
  shows "(has_attribute (last (filter water_override (children doc))) ''NoWater'' ''1'' \<longrightarrow>
            delta ''water_level'' = Some (PyInt 0))
       \<and> (has_attribute (last (filter water_override (children doc))) ''WaterAdvise'' ''1'' \<longrightarrow>
            delta ''water_level'' = Some (PyInt 1))
       \<and> water_override (last (filter water_override (children doc)))"
proof -
  from assms(1,2) have l:
    "attribute_xml_to_dict_loop (children doc) [''water_level'' \<mapsto> PyInt 2] = Inr delta"
    by (simp add: attribute_xml_to_dict_def)
  from assms(3) have ne: "filter water_override (children doc) \<noteq> []"
    by (auto simp: filter_empty_conv water_override_def)
  then have "last (filter water_override (children doc)) \<in> set (filter water_override (children doc))"
    by (rule last_in_set)
  then have wo: "water_override (last (filter water_override (children doc)))"
    by simp
  have excl: "\<not> has_attribute a ''NoWater'' ''1''" if "has_attribute a ''WaterAdvise'' ''1''" for a
    using that by (auto simp: has_attribute_def split: list.splits)
  from loop_water_level [OF l] ne wo excl show ?thesis
    by auto
qed

theorem last_water_attribute_wins_witness:
  "lookup_decoded
     (table_parser [(''<attributes><attribute><name>NoWater</name><value>1</value></attribute><attribute><name>WaterAdvise</name><value>1</value></attribute></attributes>'',
                    attributes_element [(''NoWater'', Some ''1''), (''WaterAdvise'', Some ''1'')])])
     (Some ''<attribute><name>NoWater</name><value>1</value></attribute><attribute><name>WaterAdvise</name><value>1</value></attribute>'')
     ''water_level''
     = Inr (Some (PyInt 1))
   \<and> lookup_decoded
     (table_parser [(''<attributes><attribute><name>WaterAdvise</name><value>1</value></attribute><attribute><name>NoWater</name><value>1</value></attribute></attributes>'',
                    attributes_element [(''WaterAdvise'', Some ''1''), (''NoWater'', Some ''1'')])])
     (Some ''<attribute><name>WaterAdvise</name><value>1</value></attribute><attribute><name>NoWater</name><value>1</value></attribute>'')
     ''water_level''
     = Inr (Some (PyInt 0))"
proof (intro conjI)
  let ?blob = "''<attribute><name>NoWater</name><value>1</value></attribute><attribute><name>WaterAdvise</name><value>1</value></attribute>''"
  let ?doc = "attributes_element [(''NoWater'', Some ''1''), (''WaterAdvise'', Some ''1'')]"
  let ?table = "[(''<attributes><attribute><name>NoWater</name><value>1</value></attribute><attribute><name>WaterAdvise</name><value>1</value></attribute></attributes>'', ?doc)]"
  have m: "map_of ?table (wrap_blob ?blob) = Some ?doc"
    by (simp add: wrap_blob_def)
  have "\<exists>delta. attribute_xml_to_dict (table_parser ?table) (Some ?blob) = Inr delta"
    by (subst decode_table(2) [OF m])
       (simp add: attributes_element_def body_attribute_element)
  then obtain delta where d: "attribute_xml_to_dict (table_parser ?table) (Some ?blob) = Inr delta" ..
  have c: "children ?doc = [attribute_element ''NoWater'' (Some ''1''),
                            attribute_element ''WaterAdvise'' (Some ''1'')]"
    by (simp add: attributes_element_def)
  from last_water_attribute_wins [OF decode_table(1) [OF m] d]
  have "delta ''water_level'' = Some (PyInt 1)"
    by (simp add: c has_attribute_element water_override_element)
  with d show "lookup_decoded (table_parser ?table) (Some ?blob) ''water_level'' = Inr (Some (PyInt 1))"
    by (simp add: lookup_decoded_def)
next
  let ?blob = "''<attribute><name>WaterAdvise</name><value>1</value></attribute><attribute><name>NoWater</name><value>1</value></attribute>''"
  let ?doc = "attributes_element [(''WaterAdvise'', Some ''1''), (''NoWater'', Some ''1'')]"
  let ?table = "[(''<attributes><attribute><name>WaterAdvise</name><value>1</value></attribute><attribute><name>NoWater</name><value>1</value></attribute></attributes>'', ?doc)]"
  have m: "map_of ?table (wrap_blob ?blob) = Some ?doc"
    by (simp add: wrap_blob_def)
  have "\<exists>delta. attribute_xml_to_dict (table_parser ?table) (Some ?blob) = Inr delta"
    by (subst decode_table(2) [OF m])
       (simp add: attributes_element_def body_attribute_element)
  then obtain delta where d: "attribute_xml_to_dict (table_parser ?table) (Some ?blob) = Inr delta" ..
  have c: "children ?doc = [attribute_element ''WaterAdvise'' (Some ''1''),
                            attribute_element ''NoWater'' (Some ''1'')]"
    by (simp add: attributes_element_def)
  from last_water_attribute_wins [OF decode_table(1) [OF m] d]
  have "delta ''water_level'' = Some (PyInt 0)"
    by (simp add: c has_attribute_element water_override_element)
  with d show "lookup_decoded (table_parser ?table) (Some ?blob) ''water_level'' = Inr (Some (PyInt 0))"
    by (simp add: lookup_decoded_def)
qed

section \<open>Water attributes with another value\<close>

text \<open>
  C10. An attribute named \<^verbatim>\<open>NoWater\<close> or \<^verbatim>\<open>WaterAdvise\<close> whose value element has any text
  other than \<^verbatim>\<open>"1"\<close>, or no text, raises nothing and leaves the dictionary as it is: the
  decoder gives the same outcome as on the fragment without that attribute.
\<close>

theorem water_attribute_other_value_ignored:
  assumes "children a = n # v # rest"
    and "text_of n = Some ''NoWater'' \<or> text_of n = Some ''WaterAdvise''"
    and "text_of v \<noteq> Some ''1''"
  shows "attribute_xml_to_dict_body a result = Inr result
       \<and> attribute_xml_to_dict_loop (before @ a # after) result
           = attribute_xml_to_dict_loop (before @ after) result"
proof -
  have "attribute_xml_to_dict_body a r = Inr r" for r
    using assms by (auto simp: body_unfold [OF assms(1)])
  then show ?thesis by (simp add: loop_skip)
qed

theorem water_attribute_other_value_ignored_witness:
  "attribute_xml_to_dict_body (attribute_element ''NoWater'' (Some ''0'')) [''water_level'' \<mapsto> PyInt 2]
     = Inr [''water_level'' \<mapsto> PyInt 2]
   \<and> attribute_xml_to_dict_body (attribute_element ''NoWater'' (Some '' 1'')) [''water_level'' \<mapsto> PyInt 2]
     = Inr [''water_level'' \<mapsto> PyInt 2]
   \<and> attribute_xml_to_dict_body (attribute_element ''WaterAdvise'' (Some ''true'')) [''water_level'' \<mapsto> PyInt 0]
     = Inr [''water_level'' \<mapsto> PyInt 0]
   \<and> attribute_xml_to_dict_body (attribute_element ''WaterAdvise'' None) [''water_level'' \<mapsto> PyInt 0]
     = Inr [''water_level'' \<mapsto> PyInt 0]
   \<and> attribute_xml_to_dict_loop
       ([attribute_element ''NoWater'' (Some ''1'')] @ attribute_element ''WaterAdvise'' (Some ''abc'') # [])
       [''water_level'' \<mapsto> PyInt 2]
     = attribute_xml_to_dict_loop ([attribute_element ''NoWater'' (Some ''1'')] @ [])
         [''water_level'' \<mapsto> PyInt 2]"
  using
    water_attribute_other_value_ignored [OF children_attribute_element,
      of "''NoWater''" "Some ''0''" "[''water_level'' \<mapsto> PyInt 2]" "[]" "[]"]
    water_attribute_other_value_ignored [OF children_attribute_element,
      of "''NoWater''" "Some '' 1''" "[''water_level'' \<mapsto> PyInt 2]" "[]" "[]"]
    water_attribute_other_value_ignored [OF children_attribute_element,
      of "''WaterAdvise''" "Some ''true''" "[''water_level'' \<mapsto> PyInt 0]" "[]" "[]"]
    water_attribute_other_value_ignored [OF children_attribute_element,
      of "''WaterAdvise''" "None" "[''water_level'' \<mapsto> PyInt 0]" "[]" "[]"]
    water_attribute_other_value_ignored [OF children_attribute_element,
      of "''WaterAdvise''" "Some ''abc''" "[''water_level'' \<mapsto> PyInt 2]"
         "[attribute_element ''NoWater'' (Some ''1'')]" "[]"]
  by simp

section \<open>Filter life\<close>

text \<open>
  C6 as the specification states it, for every \<^verbatim>\<open>FilterLife\<close> attribute of the fragment,
  fails on a fragment with two of them: the fragment below holds a \<^verbatim>\<open>FilterLife\<close> attribute
  with the text \<^verbatim>\<open>30240\<close>, for which the formula gives 50.0, and the decoder reports 100.0,
  the value of the second attribute.
\<close>

theorem filter_life_first_attribute_counterexample:
  "table_parser
     [(''<attributes><attribute><name>FilterLife</name><value>30240</value></attribute><attribute><name>FilterLife</name><value>60480</value></attribute></attributes>'',
       attributes_element [(''FilterLife'', Some ''30240''), (''FilterLife'', Some ''60480'')])]
     (wrap_blob ''<attribute><name>FilterLife</name><value>30240</value></attribute><attribute><name>FilterLife</name><value>60480</value></attribute>'')
     = Inr (attributes_element [(''FilterLife'', Some ''30240''), (''FilterLife'', Some ''60480'')])
   \<and> has_attribute
        (children (attributes_element [(''FilterLife'', Some ''30240''), (''FilterLife'', Some ''60480'')]) ! 0)
        ''FilterLife'' ''30240''
   \<and> py_float (Some ''30240'') = Inr (Finite 30240)
   \<and> filter_life_of (Some ''30240'') = Inr (Finite 50)
   \<and> lookup_decoded
        (table_parser
          [(''<attributes><attribute><name>FilterLife</name><value>30240</value></attribute><attribute><name>FilterLife</name><value>60480</value></attribute></attributes>'',
            attributes_element [(''FilterLife'', Some ''30240''), (''FilterLife'', Some ''60480'')])])
        (Some ''<attribute><name>FilterLife</name><value>30240</value></attribute><attribute><name>FilterLife</name><value>60480</value></attribute>'')
        ''filter_life''
      = Inr (Some (PyFloat (Finite 100)))"
proof -
  let ?blob = "''<attribute><name>FilterLife</name><value>30240</value></attribute><attribute><name>FilterLife</name><value>60480</value></attribute>''"
  let ?doc = "attributes_element [(''FilterLife'', Some ''30240''), (''FilterLife'', Some ''60480'')]"
  let ?table = "[(''<attributes><attribute><name>FilterLife</name><value>30240</value></attribute><attribute><name>FilterLife</name><value>60480</value></attribute></attributes>'', ?doc)]"
  have m: "map_of ?table (wrap_blob ?blob) = Some ?doc"
    by (simp add: wrap_blob_def)
  have d: "lookup_decoded (table_parser ?table) (Some ?blob) ''filter_life''
             = Inr (Some (PyFloat (Finite 100)))"
    unfolding lookup_decoded_def
    by (subst decode_table(2) [OF m])
       (simp add: attributes_element_def body_attribute_element filter_life_30240
          filter_life_60480 except_ValueError_def)
  have h: "has_attribute (children ?doc ! 0) ''FilterLife'' ''30240''"
    by (simp add: attributes_element_def has_attribute_element)
  from decode_table(1) [OF m] h py_float_30240 filter_life_30240 d show ?thesis
    by (intro conjI)
qed

text \<open>
  C6 (as amended). When the decoder returns, the \<^verbatim>\<open>filter_life\<close> it reports comes from the
  last \<^verbatim>\<open>FilterLife\<close> attribute of the fragment: if the text of that attribute converts to
  the float \<open>raw\<close>, the value is \<^verbatim>\<open>round((raw / 60480) * 100, 2)\<close>, and the text
  \<^verbatim>\<open>30240\<close> gives 50.0.
\<close>

theorem filter_life_of_last_attribute:
  assumes "parse (wrap_blob blob) = Inr doc"
    and "attribute_xml_to_dict parse (Some blob) = Inr delta"
    and "children doc = before @ a # after"
    and "children a = n # v # rest"
    and "text_of n = Some ''FilterLife''"
    and "py_float (text_of v) = Inr raw"
    and "\<forall>b \<in> set after. \<not> names_attribute b ''FilterLife''"
  shows "(\<exists>x. float_truediv raw (float_of_int 60480) = Inr x
            \<and> delta ''filter_life''
                = Some (PyFloat (float_round (float_mul x (float_of_int 100)) 2)))
       \<and> (text_of v = Some ''30240'' \<longrightarrow> delta ''filter_life'' = Some (PyFloat (Finite 50)))"
proof -
  from truediv_60480 obtain x where x: "float_truediv raw (float_of_int 60480) = Inr x" ..
  let ?y = "float_round (float_mul x (float_of_int 100)) 2"
  from assms(6) x have fl: "filter_life_of (text_of v) = Inr ?y"
    by (simp add: filter_life_of_def)
  from assms(1,2,3) have
    "attribute_xml_to_dict_loop (before @ a # after) [''water_level'' \<mapsto> PyInt 2] = Inr delta"
    by (simp add: attribute_xml_to_dict_def)
  then obtain r1 where
    "attribute_xml_to_dict_loop (a # after) r1 = Inr delta"
    by (auto simp: loop_append split: sum.splits)
  with fl assms(5) have "attribute_xml_to_dict_loop after (r1(''filter_life'' \<mapsto> PyFloat ?y)) = Inr delta"
    by (simp add: body_unfold [OF assms(4)] except_ValueError_def)
  from loop_keeps_filter_life [OF this assms(7)]
  have d: "delta ''filter_life'' = Some (PyFloat ?y)" by simp
  have "?y = Finite 50" if "text_of v = Some ''30240''"
    using fl that filter_life_30240 by simp
  with x d show ?thesis by auto
qed

theorem filter_life_of_last_attribute_witness:
  "lookup_decoded
     (table_parser [(''<attributes><attribute><name>FilterLife</name><value>30240</value></attribute></attributes>'',
                    attributes_element [(''FilterLife'', Some ''30240'')])])
     (Some ''<attribute><name>FilterLife</name><value>30240</value></attribute>'')
     ''filter_life''
     = Inr (Some (PyFloat (Finite 50)))"
proof -
  let ?blob = "''<attribute><name>FilterLife</name><value>30240</value></attribute>''"
  let ?doc = "attributes_element [(''FilterLife'', Some ''30240'')]"
  let ?table = "[(''<attributes><attribute><name>FilterLife</name><value>30240</value></attribute></attributes>'', ?doc)]"
  have m: "map_of ?table (wrap_blob ?blob) = Some ?doc"
    by (simp add: wrap_blob_def)
  have "\<exists>delta. attribute_xml_to_dict (table_parser ?table) (Some ?blob) = Inr delta"
    by (subst decode_table(2) [OF m])
       (simp add: attributes_element_def body_attribute_element filter_life_30240
          except_ValueError_def)
  then obtain delta where d: "attribute_xml_to_dict (table_parser ?table) (Some ?blob) = Inr delta" ..
  have c: "children ?doc = [] @ attribute_element ''FilterLife'' (Some ''30240'') # []"
    by (simp add: attributes_element_def)
  from filter_life_of_last_attribute [OF decode_table(1) [OF m] d c children_attribute_element,
      of "Finite 30240"]
  have "delta ''filter_life'' = Some (PyFloat (Finite 50))"
    by (simp add: py_float_30240)
  with d show ?thesis by (simp add: lookup_decoded_def)
qed

section \<open>Values that do not convert\<close>

text \<open>
  C7. A recognised attribute whose text does not convert raises ValueError, which the decoder
  catches: the attribute is dropped and every other attribute is decoded as if it were not
  there (\<open>conversion_failure_dropped\<close>). An empty value element has no text, and
  \<^verbatim>\<open>int(None)\<close> and \<^verbatim>\<open>float(None)\<close> raise TypeError, which the decoder does not catch
  (\<open>empty_value_raises\<close>): on the fragment below, a \<^verbatim>\<open>CurrentHumidity\<close> attribute with an
  empty value, the exception leaves \<^verbatim>\<open>attribute_xml_to_dict\<close>.
\<close>

theorem empty_value_escapes_decoder:
  "attribute_xml_to_dict
     (table_parser [(''<attributes><attribute><name>CurrentHumidity</name><value></value></attribute></attributes>'',
                    attributes_element [(''CurrentHumidity'', None)])])
     (Some ''<attribute><name>CurrentHumidity</name><value></value></attribute>'')
   = Inl TypeError"
proof -
  let ?blob = "''<attribute><name>CurrentHumidity</name><value></value></attribute>''"
  let ?doc = "attributes_element [(''CurrentHumidity'', None)]"
  let ?table = "[(''<attributes><attribute><name>CurrentHumidity</name><value></value></attribute></attributes>'', ?doc)]"
  have m: "map_of ?table (wrap_blob ?blob) = Some ?doc"
    by (simp add: wrap_blob_def)
  show ?thesis
    by (subst decode_table(2) [OF m])
       (simp add: attributes_element_def empty_value_raises [OF children_attribute_element])
qed

section \<open>Refresh and push\<close>

text \<open>
  C1 as the specification states it fails on the refresh: on a snapshot with \<^verbatim>\<open>fan_mode\<close> 3
  and a reply that holds only \<^verbatim>\<open>CurrentHumidity\<close> 42.5, \<^verbatim>\<open>update_attributes\<close> returns and the
  snapshot has no \<^verbatim>\<open>fan_mode\<close> key any more.
\<close>

theorem refresh_drops_absent_key_counterexample:
  "attributes
     (\<lparr>attributes = [''fan_mode'' \<mapsto> PyInt 3], state = Some (PyInt 3), device = (), calls = []\<rparr>
        :: unit humidifier) ''fan_mode'' = Some (PyInt 3)
   \<and> fst (update_attributes
        (answering
           [(''<attributes><attribute><name>CurrentHumidity</name><value>42.5</value></attribute></attributes>'',
             attributes_element [(''CurrentHumidity'', Some ''42.5'')])]
           ''<attribute><name>CurrentHumidity</name><value>42.5</value></attribute>'')
        \<lparr>attributes = [''fan_mode'' \<mapsto> PyInt 3], state = Some (PyInt 3), device = (), calls = []\<rparr>)
      = Inr ()
   \<and> attributes (snd (update_attributes
        (answering
           [(''<attributes><attribute><name>CurrentHumidity</name><value>42.5</value></attribute></attributes>'',
             attributes_element [(''CurrentHumidity'', Some ''42.5'')])]
           ''<attribute><name>CurrentHumidity</name><value>42.5</value></attribute>'')
        \<lparr>attributes = [''fan_mode'' \<mapsto> PyInt 3], state = Some (PyInt 3), device = (), calls = []\<rparr>))
        ''fan_mode'' = None
   \<and> attributes (snd (update_attributes
        (answering
           [(''<attributes><attribute><name>CurrentHumidity</name><value>42.5</value></attribute></attributes>'',
             attributes_element [(''CurrentHumidity'', Some ''42.5'')])]
           ''<attribute><name>CurrentHumidity</name><value>42.5</value></attribute>'')
        \<lparr>attributes = [''fan_mode'' \<mapsto> PyInt 3], state = Some (PyInt 3), device = (), calls = []\<rparr>))
        ''current_humidity'' = Some (PyFloat (Finite (85 / 2)))"
  by (simp add: update_attributes_answering [OF decode_humidity_only])

text \<open>
  C1 (as amended). A refresh replaces the cached dictionary: after \<^verbatim>\<open>update_attributes\<close> has
  returned, \<^verbatim>\<open>_attributes\<close> is exactly the dictionary decoded from the reply, so a key of the
  old snapshot that the reply does not mention is gone. The merge that keeps such a key is
  what \<^verbatim>\<open>subscription_update\<close> does with an \<^verbatim>\<open>attributeList\<close> notification: a key of the
  decoded delta takes the delta's value and every other key keeps its cached value.
\<close>

theorem refresh_replaces_push_merges:
  "(update_attributes c self = (Inr u, refreshed) \<longrightarrow>
      (\<exists>reply. fst (GetAttributes c (device self)) = Inr reply
         \<and> attribute_xml_to_dict (fromstring c) (reply ''attributeList'')
             = Inr (attributes refreshed)))
   \<and> (subscription_update c ''attributeList'' params self = (Inr b, pushed) \<longrightarrow>
      (\<exists>delta. attribute_xml_to_dict (fromstring c) (Some params) = Inr delta
         \<and> (\<forall>key. attributes pushed key
                    = (if key \<in> dom delta then delta key else attributes self key))))"
proof (intro conjI impI)
  assume "update_attributes c self = (Inr u, refreshed)"
  from update_attributes_returns [OF this]
  show "\<exists>reply. fst (GetAttributes c (device self)) = Inr reply
         \<and> attribute_xml_to_dict (fromstring c) (reply ''attributeList'')
             = Inr (attributes refreshed)"
    by blast
next
  assume "subscription_update c ''attributeList'' params self = (Inr b, pushed)"
  from subscription_update_returns [OF this] obtain delta
    where d: "attribute_xml_to_dict (fromstring c) (Some params) = Inr delta"
      and m: "attributes pushed = attributes self ++ delta"
    by blast
  have "attributes pushed key = (if key \<in> dom delta then delta key else attributes self key)"
    for key
    by (auto simp: m map_add_def split: option.splits)
  with d show "\<exists>delta. attribute_xml_to_dict (fromstring c) (Some params) = Inr delta
         \<and> (\<forall>key. attributes pushed key
                    = (if key \<in> dom delta then delta key else attributes self key))"
    by blast
qed

theorem refresh_replaces_push_merges_witness:
  "attributes (snd (subscription_update
        (answering
           [(''<attributes><attribute><name>CurrentHumidity</name><value>42.5</value></attribute></attributes>'',
             attributes_element [(''CurrentHumidity'', Some ''42.5'')])]
           ''<attribute><name>CurrentHumidity</name><value>42.5</value></attribute>'')
        ''attributeList'' ''<attribute><name>CurrentHumidity</name><value>42.5</value></attribute>''
        \<lparr>attributes = [''fan_mode'' \<mapsto> PyInt 3], state = Some (PyInt 3), device = (), calls = []\<rparr>))
        ''fan_mode'' = Some (PyInt 3)
   \<and> attributes (snd (subscription_update
        (answering
           [(''<attributes><attribute><name>CurrentHumidity</name><value>42.5</value></attribute></attributes>'',
             attributes_element [(''CurrentHumidity'', Some ''42.5'')])]
           ''<attribute><name>CurrentHumidity</name><value>42.5</value></attribute>'')
        ''attributeList'' ''<attribute><name>CurrentHumidity</name><value>42.5</value></attribute>''
        \<lparr>attributes = [''fan_mode'' \<mapsto> PyInt 3], state = Some (PyInt 3), device = (), calls = []\<rparr>))
        ''current_humidity'' = Some (PyFloat (Finite (85 / 2)))
   \<and> attributes (snd (update_attributes
        (answering
           [(''<attributes><attribute><name>CurrentHumidity</name><value>42.5</value></attribute></attributes>'',
             attributes_element [(''CurrentHumidity'', Some ''42.5'')])]
           ''<attribute><name>CurrentHumidity</name><value>42.5</value></attribute>'')
        \<lparr>attributes = [''fan_mode'' \<mapsto> PyInt 3], state = Some (PyInt 3), device = (), calls = []\<rparr>))
      = [''water_level'' \<mapsto> PyInt 2, ''current_humidity'' \<mapsto> PyFloat (Finite (85 / 2))]"
proof -
  let ?blob = "''<attribute><name>CurrentHumidity</name><value>42.5</value></attribute>''"
  let ?table = "[(''<attributes><attribute><name>CurrentHumidity</name><value>42.5</value></attribute></attributes>'',
             attributes_element [(''CurrentHumidity'', Some ''42.5'')])]"
  let ?c = "answering ?table ?blob"
  let ?self = "\<lparr>attributes = [''fan_mode'' \<mapsto> PyInt 3], state = Some (PyInt 3), device = (), calls = []\<rparr> :: unit humidifier"
  let ?d = "[''water_level'' \<mapsto> PyInt 2, ''current_humidity'' \<mapsto> PyFloat (Finite (85 / 2))]"
  have f: "fromstring ?c = table_parser ?table"
    by (simp add: answering_def)
  have g: "fst (GetAttributes ?c (device ?self)) = Inr [''attributeList'' \<mapsto> ?blob]"
    by (simp add: answering_def)
  have u: "update_attributes ?c ?self = (Inr (), snd (update_attributes ?c ?self))"
    by (simp add: update_attributes_answering [OF decode_humidity_only])
  have p: "subscription_update ?c ''attributeList'' ?blob ?self
             = (Inr True, snd (subscription_update ?c ''attributeList'' ?blob ?self))"
    by (simp add: subscription_update_answering [OF decode_humidity_only])
  from refresh_replaces_push_merges [of ?c ?self "()" "snd (update_attributes ?c ?self)"
      ?blob True "snd (subscription_update ?c ''attributeList'' ?blob ?self)"] u p
  obtain reply delta where
    r: "fst (GetAttributes ?c (device ?self)) = Inr reply"
       "attribute_xml_to_dict (fromstring ?c) (reply ''attributeList'')
          = Inr (attributes (snd (update_attributes ?c ?self)))"
    and d: "attribute_xml_to_dict (fromstring ?c) (Some ?blob) = Inr delta"
       "\<forall>key. attributes (snd (subscription_update ?c ''attributeList'' ?blob ?self)) key
          = (if key \<in> dom delta then delta key else attributes ?self key)"
    by blast
  from r g have "reply ''attributeList'' = Some ?blob" by auto
  with r(2) f decode_humidity_only have 1: "attributes (snd (update_attributes ?c ?self)) = ?d"
    by simp
  from d(1) f decode_humidity_only have "delta = ?d" by simp
  with d(2) have 2:
    "attributes (snd (subscription_update ?c ''attributeList'' ?blob ?self)) ''fan_mode'' = Some (PyInt 3)"
    "attributes (snd (subscription_update ?c ''attributeList'' ?blob ?self)) ''current_humidity''
       = Some (PyFloat (Finite (85 / 2)))"
    by simp_all
  from 1 2 show ?thesis by (intro conjI)
qed

section \<open>get_state\<close>



section \<open>An unknown fan mode\<close>

text \<open>
  C9. Let an object come out of a decode (a refresh or an \<^verbatim>\<open>attributeList\<close> notification) with
  no \<^verbatim>\<open>fan_mode\<close> key in its snapshot. Then its \<^verbatim>\<open>_state\<close> is \<^verbatim>\<open>None\<close>, so \<^verbatim>\<open>get_state\<close>
  refreshes, forced or not; and when the refreshed snapshot has no \<^verbatim>\<open>fan_mode\<close> key
  either, \<^verbatim>\<open>_state\<close> is \<^verbatim>\<open>None\<close> again and \<^verbatim>\<open>get_state\<close> returns 1.
\<close>

theorem unknown_fan_mode_reports_on:
  assumes "update_attributes c0 self0 = (Inr u, self)
         \<or> subscription_update c0 ''attributeList'' params self0 = (Inr b, self)"
    and "fan_mode self = None"
    and "get_state c force_update self = (Inr v, self')"
    and "fan_mode self' = None"
  shows "state self = None \<and> calls self' = calls self @ [GetAttributes_call]
       \<and> state self' = None \<and> v = 1"
proof -
  from assms(1) have "state self = fan_mode self"
    using update_attributes_returns subscription_update_returns by blast
  with assms(2) have n: "state self = None" by simp
  obtain r s where us: "update_attributes c self = (r, s)" by (cases "update_attributes c self")
  with n assms(3) have s: "self' = s" and r: "r = Inr ()" and v: "v = state_is_on s"
    by (auto simp: get_state_refresh split: sum.splits)
  from us r have "update_attributes c self = (Inr (), s)" by simp
  from update_attributes_returns [OF this] have "state s = fan_mode s" by blast
  with s assms(4) have "state self' = None" by simp
  with n s v us update_attributes_calls [of c self] show ?thesis
    by (simp add: state_is_on_def)
qed

theorem unknown_fan_mode_reports_on_witness:
  "state (snd (update_attributes
        (answering
           [(''<attributes><attribute><name>CurrentHumidity</name><value>42.5</value></attribute></attributes>'',
             attributes_element [(''CurrentHumidity'', Some ''42.5'')])]
           ''<attribute><name>CurrentHumidity</name><value>42.5</value></attribute>'')
        \<lparr>attributes = Map.empty, state = None, device = (), calls = []\<rparr>))
     = None
   \<and> fst (get_state
        (answering
           [(''<attributes><attribute><name>CurrentHumidity</name><value>42.5</value></attribute></attributes>'',
             attributes_element [(''CurrentHumidity'', Some ''42.5'')])]
           ''<attribute><name>CurrentHumidity</name><value>42.5</value></attribute>'')
        False
        (snd (update_attributes
          (answering
             [(''<attributes><attribute><name>CurrentHumidity</name><value>42.5</value></attribute></attributes>'',
               attributes_element [(''CurrentHumidity'', Some ''42.5'')])]
             ''<attribute><name>CurrentHumidity</name><value>42.5</value></attribute>'')
          \<lparr>attributes = Map.empty, state = None, device = (), calls = []\<rparr>)))
     = Inr 1
   \<and> calls (snd (get_state
        (answering
           [(''<attributes><attribute><name>CurrentHumidity</name><value>42.5</value></attribute></attributes>'',
             attributes_element [(''CurrentHumidity'', Some ''42.5'')])]
           ''<attribute><name>CurrentHumidity</name><value>42.5</value></attribute>'')
        False
        (snd (update_attributes
          (answering
             [(''<attributes><attribute><name>CurrentHumidity</name><value>42.5</value></attribute></attributes>'',
               attributes_element [(''CurrentHumidity'', Some ''42.5'')])]
             ''<attribute><name>CurrentHumidity</name><value>42.5</value></attribute>'')
          \<lparr>attributes = Map.empty, state = None, device = (), calls = []\<rparr>))))
     = [GetAttributes_call, GetAttributes_call]"
proof -
  let ?dev = "answering
           [(''<attributes><attribute><name>CurrentHumidity</name><value>42.5</value></attribute></attributes>'',
             attributes_element [(''CurrentHumidity'', Some ''42.5'')])]
           ''<attribute><name>CurrentHumidity</name><value>42.5</value></attribute>''"
  let ?obj0 = "\<lparr>attributes = Map.empty, state = None, device = (), calls = []\<rparr> :: unit humidifier"
  let ?dict = "[''water_level'' \<mapsto> PyInt 2, ''current_humidity'' \<mapsto> PyFloat (Finite (85 / 2))]"
  let ?obj1 = "\<lparr>attributes = ?dict, state = None, device = (), calls = [GetAttributes_call]\<rparr> :: unit humidifier"
  let ?obj2 = "\<lparr>attributes = ?dict, state = None, device = (),
                  calls = [GetAttributes_call, GetAttributes_call]\<rparr> :: unit humidifier"
  note u = update_attributes_answering [OF decode_humidity_only]
  have a: "update_attributes ?dev ?obj0 = (Inr (), ?obj1)"
    by (simp add: u)
  have b: "fan_mode ?obj1 = None"
    by (simp add: fan_mode_def)
  have "update_attributes ?dev ?obj1 = (Inr (), ?obj2)"
    by (simp add: u)
  then have c: "get_state ?dev False ?obj1 = (Inr 1, ?obj2)"
    by (simp add: get_state_def state_is_on_def)
  have d: "fan_mode ?obj2 = None"
    by (simp add: fan_mode_def)
  from unknown_fan_mode_reports_on [OF disjI1 [OF a] b c d] a c
  show ?thesis by simp
qed

section \<open>set_fan_mode\<close>

text \<open>
  C5. \<^verbatim>\<open>set_fan_mode(mode)\<close> on an int, when the device accepts the call: the object issues one
  \<^verbatim>\<open>SetAttributes\<close> call, whose argument is \<^verbatim>\<open>quote_xml\<close> of the one-attribute fragment with
  name \<^verbatim>\<open>FanMode\<close> and value \<^verbatim>\<open>str(mode)\<close>, and then one \<^verbatim>\<open>GetAttributes\<close> call, the forced
  refresh; it issues no other call. \<^verbatim>\<open>str(mode)\<close> is the decimal string of \<open>mode\<close>: \<^verbatim>\<open>int\<close>
  reads \<open>mode\<close> back from it.
\<close>

theorem set_fan_mode_calls:
  assumes "set_fan_mode c mode self = (outcome, self')"
    and "fst (SetAttributes c
               (quote_xml c (''<attribute><name>FanMode</name><value>'' @ py_str mode
                             @ ''</value></attribute>''))
               (device self)) = Inr ack"
  shows "calls self' = calls self @
           [SetAttributes_call
              (quote_xml c (''<attribute><name>FanMode</name><value>'' @ py_str mode
                            @ ''</value></attribute>'')),
            GetAttributes_call]
       \<and> int_of_str (py_str mode) = Some mode"
  using assms
  by (auto simp: set_fan_mode_def send_attributes_def Let_def get_state_forced_calls
           int_of_str_py_str split: sum.splits)

theorem set_fan_mode_calls_witness:
  "calls (snd (set_fan_mode
        (answering
           [(''<attributes><attribute><name>FanMode</name><value>4</value></attribute></attributes>'',
             attributes_element [(''FanMode'', Some ''4'')])]
           ''<attribute><name>FanMode</name><value>4</value></attribute>'')
        4
        \<lparr>attributes = [''fan_mode'' \<mapsto> PyInt 0], state = Some (PyInt 0), device = (), calls = []\<rparr>))
   = [SetAttributes_call
        ''&lt;attribute&gt;&lt;name&gt;FanMode&lt;/name&gt;&lt;value&gt;4&lt;/value&gt;&lt;/attribute&gt;'',
      GetAttributes_call]"
proof -
  let ?dev = "answering
        [(''<attributes><attribute><name>FanMode</name><value>4</value></attribute></attributes>'',
          attributes_element [(''FanMode'', Some ''4'')])]
        ''<attribute><name>FanMode</name><value>4</value></attribute>''"
  let ?obj = "\<lparr>attributes = [''fan_mode'' \<mapsto> PyInt 0], state = Some (PyInt 0), device = (), calls = []\<rparr> :: unit humidifier"
  have q: "quote_xml ?dev (''<attribute><name>FanMode</name><value>'' @ py_str 4 @ ''</value></attribute>'')
             = ''&lt;attribute&gt;&lt;name&gt;FanMode&lt;/name&gt;&lt;value&gt;4&lt;/value&gt;&lt;/attribute&gt;''"
    by (simp add: answering_def py_str_4)
  have s: "fst (SetAttributes ?dev
               (quote_xml ?dev (''<attribute><name>FanMode</name><value>'' @ py_str 4
                             @ ''</value></attribute>''))
               (device ?obj)) = Inr ()"
    by (simp add: answering_def)
  from set_fan_mode_calls [OF _ s, of "fst (set_fan_mode ?dev 4 ?obj)" "snd (set_fan_mode ?dev 4 ?obj)"] q
  show ?thesis by simp
qed

section \<open>Labels\<close>

text \<open>
  C8. A cached fan mode \<open>v\<close> is returned by \<^verbatim>\<open>fan_mode\<close> as it is; \<^verbatim>\<open>fan_mode_string\<close> is
  the name of \<open>v\<close> for \<open>v\<close> from 0 to 5 and \<^verbatim>\<open>"Unknown"\<close> for every other \<open>v\<close>. Whatever
  the snapshot holds, the three label lookups return a name of their table or
  \<^verbatim>\<open>"Unknown"\<close>.
\<close>

theorem fan_mode_string_names:
  "(attributes self ''fan_mode'' = Some (PyInt v) \<longrightarrow>
      fan_mode self = Some (PyInt v)
      \<and> (v = 0 \<longrightarrow> fan_mode_string self = ''Off'')
      \<and> (v = 1 \<longrightarrow> fan_mode_string self = ''Minimum'')
      \<and> (v = 2 \<longrightarrow> fan_mode_string self = ''Low'')
      \<and> (v = 3 \<longrightarrow> fan_mode_string self = ''Medium'')
      \<and> (v = 4 \<longrightarrow> fan_mode_string self = ''High'')
      \<and> (v = 5 \<longrightarrow> fan_mode_string self = ''Maximum'')
      \<and> (v < 0 \<or> 5 < v \<longrightarrow> fan_mode_string self = ''Unknown''))
   \<and> fan_mode_string self \<in> {''Off'', ''Minimum'', ''Low'', ''Medium'', ''High'', ''Maximum'', ''Unknown''}
   \<and> desired_humidity_percent self \<in> {''45'', ''50'', ''55'', ''60'', ''100'', ''Unknown''}
   \<and> water_level_string self \<in> {''Empty'', ''Low'', ''Good'', ''Unknown''}"
proof -
  have names: "names_get FAN_MODE_NAMES k \<in> {''Off'', ''Minimum'', ''Low'', ''Medium'', ''High'', ''Maximum'', ''Unknown''}"
    "names_get DESIRED_HUMIDITY_NAMES k \<in> {''45'', ''50'', ''55'', ''60'', ''100'', ''Unknown''}"
    "names_get WATER_LEVEL_NAMES k \<in> {''Empty'', ''Low'', ''Good'', ''Unknown''}" for k
    by (auto simp: names_get_def FAN_MODE_NAMES_def DESIRED_HUMIDITY_NAMES_def
          DESIRED_HUMIDITY_def WATER_LEVEL_NAMES_def split: option.splits if_splits)
  have "names_get FAN_MODE_NAMES (Some (PyInt v)) =
          (if v = 0 then ''Off'' else if v = 1 then ''Minimum'' else if v = 2 then ''Low''
           else if v = 3 then ''Medium'' else if v = 4 then ''High''
           else if v = 5 then ''Maximum'' else ''Unknown'')"
    by (simp add: names_get_def FAN_MODE_NAMES_def)
  with names show ?thesis
    by (auto simp: fan_mode_string_def fan_mode_def desired_humidity_percent_def
          water_level_string_def)
qed

theorem fan_mode_string_names_witness:
  "fan_mode (\<lparr>attributes = [''fan_mode'' \<mapsto> PyInt 3], state = Some (PyInt 3), device = (), calls = []\<rparr>
       :: unit humidifier) = Some (PyInt 3)
   \<and> fan_mode_string (\<lparr>attributes = [''fan_mode'' \<mapsto> PyInt 3], state = Some (PyInt 3), device = (), calls = []\<rparr>
       :: unit humidifier) = ''Medium''
   \<and> fan_mode (\<lparr>attributes = [''fan_mode'' \<mapsto> PyInt 7], state = Some (PyInt 7), device = (), calls = []\<rparr>
       :: unit humidifier) = Some (PyInt 7)
   \<and> fan_mode_string (\<lparr>attributes = [''fan_mode'' \<mapsto> PyInt 7], state = Some (PyInt 7), device = (), calls = []\<rparr>
       :: unit humidifier) = ''Unknown''"
  using
    fan_mode_string_names [of "\<lparr>attributes = [''fan_mode'' \<mapsto> PyInt 3], state = Some (PyInt 3), device = (), calls = []\<rparr> :: unit humidifier" 3]
    fan_mode_string_names [of "\<lparr>attributes = [''fan_mode'' \<mapsto> PyInt 7], state = Some (PyInt 7), device = (), calls = []\<rparr> :: unit humidifier" 7]
  by simp

end
